theory Spec2Isabelle
  imports Complex_Main "HOL-Library.AList"
begin

section \<open>Python values shared by the scripts\<close>

text \<open>
  Python text is modelled as \<^typ>\<open>string\<close>, the UTF-8 bytes of the text: the Chinese
  literals of the scripts are written as their bytes. An exception carries whether it is
  an instance of \<open>Exception\<close> (what \<open>except Exception\<close> and
  \<open>isinstance(result, Exception)\<close> test), its class name and its \<open>str(e)\<close>.
\<close>

datatype exn = Raised (is_Exception: bool) (exn_class: string) (exn_str: string)

text \<open>\<open>s.startswith(p)\<close>.\<close>

fun startswith :: "string \<Rightarrow> string \<Rightarrow> bool" where
  "startswith s [] = True"
| "startswith [] (p # ps) = False"
| "startswith (c # cs) (p # ps) = (c = p \<and> startswith cs ps)"

text \<open>\<open>sub in s\<close> on strings: \<open>sub\<close> occurs in \<open>s\<close> as a contiguous block.\<close>

fun str_in :: "string \<Rightarrow> string \<Rightarrow> bool" where
  "str_in sub [] = (sub = [])"
| "str_in sub (c # cs) = (startswith (c # cs) sub \<or> str_in sub cs)"

text \<open>
  \<open>s.split(sep)\<close>: a scan from the left for non-overlapping occurrences of \<open>sep\<close>;
  \<open>cur\<close> is the piece being collected. Python raises \<open>ValueError\<close> on an empty separator.
\<close>

function split_from :: "string \<Rightarrow> string \<Rightarrow> string \<Rightarrow> string list" where
  "split_from sep cur [] = [cur]"
| "split_from sep cur (c # cs) =
     (if sep \<noteq> [] \<and> startswith (c # cs) sep
      then cur # split_from sep [] (drop (length sep) (c # cs))
      else split_from sep (cur @ [c]) cs)"
  by pat_completeness auto
termination
  by (relation "measure (\<lambda>(sep, cur, s). length s)") auto

definition str_split :: "string \<Rightarrow> string \<Rightarrow> exn + string list" where
  "str_split s sep =
     (if sep = [] then Inl (Raised True ''ValueError'' ''empty separator'')
      else Inr (split_from sep [] s))"

text \<open>
  \<open>s.strip()\<close>. The blanks listed are the ASCII ones Python strips (space, tab, newline,
  vertical tab, form feed, carriage return and the four separators 0x1C to 0x1F). Python
  also strips the blanks beyond ASCII (U+3000 and the like); on the bytes of a text they
  stay in place, so the model covers the texts that have none at their ends.
\<close>

definition is_space :: "char \<Rightarrow> bool" where
  "is_space c = (c \<in> set [CHR '' '', CHR 0x09, CHR 0x0A, CHR 0x0B, CHR 0x0C, CHR 0x0D,
                          CHR 0x1C, CHR 0x1D, CHR 0x1E, CHR 0x1F])"

definition str_strip :: "string \<Rightarrow> string" where
  "str_strip s = rev (dropWhile is_space (rev (dropWhile is_space s)))"

text \<open>\<open>str(n)\<close> for an integer.\<close>

fun digits :: "nat \<Rightarrow> string" where
  "digits n = (if n < 10 then [''0123456789'' ! n]
               else digits (n div 10) @ [''0123456789'' ! (n mod 10)])"

definition str_int :: "int \<Rightarrow> string" where
  "str_int i = (if i < 0 then ''-'' @ digits (nat (- i)) else digits (nat i))"

text \<open>
  What \<open>eval\<close> returns: an integer, or any other object, kept by its \<open>str()\<close>.
  \<open>py_str\<close> is the rendering an f-string uses.
\<close>

datatype pyobj = PyInt int | PyObj string

fun py_str :: "pyobj \<Rightarrow> string" where
  "py_str (PyInt i) = str_int i"
| "py_str (PyObj s) = s"

section \<open>ReactAgent.py: the hand-written ReAct graph\<close>

text \<open>
  A message is the dict \<open>{"role": ..., "content": ...}\<close>. The state \<open>ReActState\<close> is a
  dict with the keys \<open>messages\<close> and \<open>iterations\<close>; a dict is an association list, and so
  is the partial state (the patch) a node returns.
\<close>

record message =
  role :: string
  content :: string

datatype pyval = Msgs "message list" | Num int

type_synonym state = "(string \<times> pyval) list"

definition quoted :: "string \<Rightarrow> string" where
  "quoted k = [CHR 0x27] @ k @ [CHR 0x27]"

text \<open>\<open>state[key]\<close>: a missing key raises \<open>KeyError\<close>.\<close>

definition state_get :: "state \<Rightarrow> string \<Rightarrow> exn + pyval" where
  "state_get st k =
     (case map_of st k of
        None \<Rightarrow> Inl (Raised True ''KeyError'' (quoted k))
      | Some v \<Rightarrow> Inr v)"

text \<open>\<open>state['messages'][-1]['content']\<close>, as both \<open>tool_node\<close> and \<open>should_continue\<close> read it.\<close>

definition last_content :: "state \<Rightarrow> exn + string" where
  "last_content st =
     (case state_get st ''messages'' of
        Inl e \<Rightarrow> Inl e
      | Inr (Num n) \<Rightarrow> Inl (Raised True ''TypeError'' ''int object is not subscriptable'')
      | Inr (Msgs ms) \<Rightarrow>
          (if ms = [] then Inl (Raised True ''IndexError'' ''list index out of range'')
           else Inr (content (last ms))))"

text \<open>The two tools. \<open>py_eval\<close> is Python's builtin \<open>eval\<close>, an external capability.\<close>

definition search_tool :: "string \<Rightarrow> string" where
  "search_tool query =
     [CHR 0xE6, CHR 0x90, CHR 0x9C, CHR 0xE7, CHR 0xB4, CHR 0xA2, CHR 0xE7, CHR 0xBB, CHR 0x93,
      CHR 0xE6, CHR 0x9E, CHR 0x9C] @ '': '' @ query @ '' '' @
     [CHR 0xE7, CHR 0x9A, CHR 0x84, CHR 0xE7, CHR 0x9B, CHR 0xB8, CHR 0xE5, CHR 0x85, CHR 0xB3,
      CHR 0xE4, CHR 0xBF, CHR 0xA1, CHR 0xE6, CHR 0x81, CHR 0xAF] @ ''...''"

definition calculator_tool :: "(string \<Rightarrow> exn + pyobj) \<Rightarrow> string \<Rightarrow> exn + pyobj" where
  "calculator_tool py_eval expression = py_eval expression"

definition tool_names :: "string list" where
  "tool_names = [''Search'', ''Calculator'']"

text \<open>The text of the \<open>else\<close> branch of \<open>tool_node\<close> (``unrecognised tool'').\<close>

definition unrecognized_tool :: string where
  "unrecognized_tool =
     [CHR 0xE6, CHR 0x97, CHR 0xA0, CHR 0xE6, CHR 0xB3, CHR 0x95, CHR 0xE8, CHR 0xAF, CHR 0x86,
      CHR 0xE5, CHR 0x88, CHR 0xAB, CHR 0xE7, CHR 0x9A, CHR 0x84, CHR 0xE5, CHR 0xB7, CHR 0xA5,
      CHR 0xE5, CHR 0x85, CHR 0xB7]"

text \<open>
  \<open>agent_node\<close>: \<open>response\<close> is the content of the model's reply to the prompt built from
  the history. The node returns the patch holding the reply and the incremented counter.
\<close>

definition agent_node :: "string \<Rightarrow> state \<Rightarrow> exn + state" where
  "agent_node response st =
     (case state_get st ''messages'' of
        Inl e \<Rightarrow> Inl e
      | Inr messages \<Rightarrow>
          (case state_get st ''iterations'' of
             Inl e \<Rightarrow> Inl e
           | Inr (Msgs ms) \<Rightarrow> Inl (Raised True ''TypeError'' ''can only concatenate list to list'')
           | Inr (Num n) \<Rightarrow>
               Inr [(''messages'', Msgs [\<lparr>role = ''assistant'', content = response\<rparr>]),
                    (''iterations'', Num (n + 1))]))"

text \<open>\<open>last_message.split("Action Input:")[-1].strip()\<close>.\<close>

definition action_input :: "string \<Rightarrow> exn + string" where
  "action_input last_message =
     (case str_split last_message ''Action Input:'' of
        Inl e \<Rightarrow> Inl e
      | Inr parts \<Rightarrow> Inr (str_strip (last parts)))"

text \<open>The \<open>if\<close>/\<open>elif\<close>/\<open>else\<close> of \<open>tool_node\<close> that computes \<open>result\<close>.\<close>

definition tool_result :: "(string \<Rightarrow> exn + pyobj) \<Rightarrow> string \<Rightarrow> exn + pyobj" where
  "tool_result py_eval last_message =
     (if str_in ''Action: Search'' last_message then
        (case action_input last_message of
           Inl e \<Rightarrow> Inl e
         | Inr a \<Rightarrow> Inr (PyObj (search_tool a)))
      else if str_in ''Action: Calculator'' last_message then
        (case action_input last_message of
           Inl e \<Rightarrow> Inl e
         | Inr a \<Rightarrow> calculator_tool py_eval a)
      else Inr (PyObj unrecognized_tool))"

definition tool_node :: "(string \<Rightarrow> exn + pyobj) \<Rightarrow> state \<Rightarrow> exn + state" where
  "tool_node py_eval st =
     (case last_content st of
        Inl e \<Rightarrow> Inl e
      | Inr last_message \<Rightarrow>
          (case tool_result py_eval last_message of
             Inl e \<Rightarrow> Inl e
           | Inr result \<Rightarrow>
               Inr [(''messages'',
                     Msgs [\<lparr>role = ''tool'', content = ''Observation: '' @ py_str result\<rparr>])]))"

text \<open>The router of the \<open>agent\<close> node.\<close>

definition should_continue :: "state \<Rightarrow> exn + string" where
  "should_continue st =
     (case last_content st of
        Inl e \<Rightarrow> Inl e
      | Inr last_message \<Rightarrow>
          (if str_in ''Final Answer'' last_message then Inr ''end''
           else
             (case state_get st ''iterations'' of
                Inl e \<Rightarrow> Inl e
              | Inr (Msgs ms) \<Rightarrow> Inl (Raised True ''TypeError'' ''>= not supported between list and int'')
              | Inr (Num n) \<Rightarrow> (if n \<ge> 5 then Inr ''end'' else Inr ''continue''))))"

section \<open>The graph engine\<close>

text \<open>
  Modelled from the spec: the state merge of section 3 (StatePatch) and the execution loop
  of section 4.1 (GraphEngine), which the scripts take from the LangGraph library
  (\<open>StateGraph\<close>, \<open>compile\<close>, \<open>invoke\<close>); the library is not part of the sources. A field
  declared \<open>Annotated[list, operator.add]\<close> is merged by appending, any other field by
  overwriting. A patch is applied entry by entry on a copy; an entry that does not fit
  rejects the patch as a whole.
\<close>

datatype reducer = Overwrite | Append

definition ReActState :: "(string \<times> reducer) list" where
  "ReActState = [(''messages'', Append), (''iterations'', Overwrite)]"

fun operator_add :: "pyval \<Rightarrow> pyval \<Rightarrow> exn + pyval" where
  "operator_add (Msgs a) (Msgs b) = Inr (Msgs (a @ b))"
| "operator_add (Num a) (Num b) = Inr (Num (a + b))"
| "operator_add a b = Inl (Raised True ''TypeError'' ''unsupported operand types for +'')"

fun merge_patch :: "(string \<times> reducer) list \<Rightarrow> state \<Rightarrow> state \<Rightarrow> exn + state" where
  "merge_patch schema st [] = Inr st"
| "merge_patch schema st ((k, v) # patch) =
     (case map_of schema k of
        None \<Rightarrow> Inl (Raised True ''InvalidUpdateError'' k)
      | Some Overwrite \<Rightarrow> merge_patch schema (AList.update k v st) patch
      | Some Append \<Rightarrow>
          (case map_of st k of
             None \<Rightarrow> merge_patch schema (AList.update k v st) patch
           | Some old \<Rightarrow>
               (case operator_add old v of
                  Inl e \<Rightarrow> Inl e
                | Inr new \<Rightarrow> merge_patch schema (AList.update k new st) patch)))"

text \<open>
  Modelled from the spec: section 4.1. A node's outcome label is fixed (\<open>add_edge\<close>) or
  computed by a router on the merged state and resolved through the node's edge map
  (\<open>add_conditional_edges\<close>). The run ends at the terminal sentinel, fails with
  \<open>StepLimitExceeded\<close> when the step budget is used up and with \<open>UnroutableOutcome\<close> when a
  label has no edge entry. A handler, merge or router that raises ends the run with
  \<open>NodeRaised\<close>, which names the node: the scripts install nothing that catches it, and
  the conversion of a handler's failure into an error observation that section 4.1 also
  describes is left out. The third component \<open>'w\<close> is the state of the external
  collaborators a handler consults; the run also returns the nodes it invoked, in order.
\<close>

datatype target = Node string | END

datatype 's routing = Edge target | ConditionalEdges "'s \<Rightarrow> exn + string" "(string \<times> target) list"

datatype engine_error =
    StepLimitExceeded
  | UnroutableOutcome string string
  | NodeRaised string exn
  | NoSuchNode string

record ('s, 'p, 'w) state_graph =
  g_nodes :: "(string \<times> ('w \<Rightarrow> 's \<Rightarrow> exn + 'p \<times> 'w)) list"
  g_edges :: "(string \<times> 's routing) list"
  g_entry_point :: string
  g_merge :: "'s \<Rightarrow> 'p \<Rightarrow> exn + 's"

definition resolve :: "string \<Rightarrow> 's routing option \<Rightarrow> 's \<Rightarrow> engine_error + target" where
  "resolve node r s =
     (case r of
        None \<Rightarrow> Inl (NoSuchNode node)
      | Some (Edge t) \<Rightarrow> Inr t
      | Some (ConditionalEdges router edge_map) \<Rightarrow>
          (case router s of
             Inl e \<Rightarrow> Inl (NodeRaised node e)
           | Inr label \<Rightarrow>
               (case map_of edge_map label of
                  None \<Rightarrow> Inl (UnroutableOutcome node label)
                | Some t \<Rightarrow> Inr t)))"

definition engine_step ::
  "('s, 'p, 'w) state_graph \<Rightarrow> string \<Rightarrow> 's \<Rightarrow> 'w \<Rightarrow> engine_error + target \<times> 's \<times> 'w" where
  "engine_step g node s w =
     (case map_of (g_nodes g) node of
        None \<Rightarrow> Inl (NoSuchNode node)
      | Some handler \<Rightarrow>
          (case handler w s of
             Inl e \<Rightarrow> Inl (NodeRaised node e)
           | Inr (patch, w') \<Rightarrow>
               (case g_merge g s patch of
                  Inl e \<Rightarrow> Inl (NodeRaised node e)
                | Inr s' \<Rightarrow>
                    (case resolve node (map_of (g_edges g) node) s' of
                       Inl e \<Rightarrow> Inl e
                     | Inr t \<Rightarrow> Inr (t, s', w')))))"

fun engine_run ::
  "('s, 'p, 'w) state_graph \<Rightarrow> nat \<Rightarrow> string \<Rightarrow> 's \<Rightarrow> 'w \<Rightarrow> engine_error + 's \<times> 'w \<times> string list" where
  "engine_run g 0 node s w = Inl StepLimitExceeded"
| "engine_run g (Suc fuel) node s w =
     (case engine_step g node s w of
        Inl e \<Rightarrow> Inl e
      | Inr (END, s', w') \<Rightarrow> Inr (s', w', [node])
      | Inr (Node next, s', w') \<Rightarrow>
          (case engine_run g fuel next s' w' of
             Inl e \<Rightarrow> Inl e
           | Inr (s'', w'', visited) \<Rightarrow> Inr (s'', w'', node # visited)))"

definition invoke ::
  "('s, 'p, 'w) state_graph \<Rightarrow> nat \<Rightarrow> 's \<Rightarrow> 'w \<Rightarrow> engine_error + 's \<times> 'w \<times> string list" where
  "invoke g max_steps s w = engine_run g max_steps (g_entry_point g) s w"

text \<open>
  The graph \<open>workflow\<close> as ReactAgent.py builds it: the nodes \<open>agent\<close> and \<open>tools\<close>, the entry
  point \<open>agent\<close>, the conditional edges of \<open>agent\<close> and the edge from \<open>tools\<close> back to
  \<open>agent\<close>. \<open>llm k\<close> is the content of the model's reply to its \<open>k\<close>-th call (counted from
  0); the collaborator state is the number of calls made so far.
\<close>

definition workflow ::
  "(nat \<Rightarrow> string) \<Rightarrow> (string \<Rightarrow> exn + pyobj) \<Rightarrow> (state, state, nat) state_graph" where
  "workflow llm py_eval =
     \<lparr>g_nodes =
        [(''agent'', \<lambda>k st. case agent_node (llm k) st of Inl e \<Rightarrow> Inl e | Inr p \<Rightarrow> Inr (p, Suc k)),
         (''tools'', \<lambda>k st. case tool_node py_eval st of Inl e \<Rightarrow> Inl e | Inr p \<Rightarrow> Inr (p, k))],
      g_edges =
        [(''agent'', ConditionalEdges should_continue [(''continue'', Node ''tools''), (''end'', END)]),
         (''tools'', Edge (Node ''agent''))],
      g_entry_point = ''agent'',
      g_merge = merge_patch ReActState\<rparr>"

text \<open>The input of the script's \<open>app.invoke\<close>: one user message and the counter at 0.\<close>

definition initial_state :: "string \<Rightarrow> state" where
  "initial_state question =
     [(''messages'', Msgs [\<lparr>role = ''user'', content = question\<rparr>]), (''iterations'', Num 0)]"

section \<open>The other calculator tools\<close>

text \<open>
  \<open>calculator_tool\<close> of ReactAgentV2.py and \<open>calculator\<close> of googleSearch\_simple.py wrap
  the evaluation in \<open>try\<close> / \<open>except Exception\<close>: an exception that is an instance of
  \<open>Exception\<close> becomes a text, any other one propagates.
\<close>

definition calculator_tool_V2 :: "(string \<Rightarrow> exn + pyobj) \<Rightarrow> string \<Rightarrow> exn + string" where
  "calculator_tool_V2 py_eval expression =
     (case py_eval expression of
        Inr result \<Rightarrow>
          Inr ([CHR 0xF0, CHR 0x9F, CHR 0x93, CHR 0x8A] @ '' '' @
               [CHR 0xE8, CHR 0xAE, CHR 0xA1, CHR 0xE7, CHR 0xAE, CHR 0x97, CHR 0xE7, CHR 0xBB,
                CHR 0x93, CHR 0xE6, CHR 0x9E, CHR 0x9C] @ '': '' @
               expression @ '' = '' @ py_str result)
      | Inl e \<Rightarrow>
          (if is_Exception e then
             Inr ([CHR 0xE2, CHR 0x9D, CHR 0x8C] @ '' '' @
                  [CHR 0xE8, CHR 0xAE, CHR 0xA1, CHR 0xE7, CHR 0xAE, CHR 0x97, CHR 0xE9, CHR 0x94,
                   CHR 0x99, CHR 0xE8, CHR 0xAF, CHR 0xAF] @ '': '' @ exn_str e)
           else Inl e))"

definition calculator :: "(string \<Rightarrow> exn + pyobj) \<Rightarrow> string \<Rightarrow> exn + string" where
  "calculator py_eval expression =
     (case py_eval expression of
        Inr result \<Rightarrow>
          Inr ([CHR 0xE8, CHR 0xAE, CHR 0xA1, CHR 0xE7, CHR 0xAE, CHR 0x97, CHR 0xE7, CHR 0xBB,
                CHR 0x93, CHR 0xE6, CHR 0x9E, CHR 0x9C] @ '': '' @ py_str result)
      | Inl e \<Rightarrow>
          (if is_Exception e then
             Inr ([CHR 0xE8, CHR 0xAE, CHR 0xA1, CHR 0xE7, CHR 0xAE, CHR 0x97, CHR 0xE9, CHR 0x94,
                   CHR 0x99, CHR 0xE8, CHR 0xAF, CHR 0xAF] @ '': '' @ exn_str e)
           else Inl e))"

section \<open>An evaluator for integer arithmetic\<close>

text \<open>
  The definitions above take Python's \<open>eval\<close> as a parameter. \<open>arith_eval\<close> stands in for it
  at concrete inputs: it evaluates the expressions written with decimal literals, \<open>+\<close>
  (binary and unary), \<open>*\<close>, \<open>**\<close> and blanks, with Python's precedences, and reports a
  malformed one as a \<open>SyntaxError\<close> (whose message text varies between Python versions;
  \<open>invalid syntax\<close> stands for it). A text with any other character is outside the
  fragment and is reported as such.
\<close>

datatype token = TNum nat | TBad | TPlus | TStar | TPow

definition is_digit :: "char \<Rightarrow> bool" where
  "is_digit c = (c \<in> set ''0123456789'')"

definition literal_value :: "string \<Rightarrow> nat" where
  "literal_value ds = foldl (\<lambda>a c. 10 * a + (of_char c - 48)) 0 ds"

text \<open>A decimal literal has no leading zero, unless it consists of zeros only.\<close>

definition literal_ok :: "string \<Rightarrow> bool" where
  "literal_ok ds = (list_all (\<lambda>c. c = CHR ''0'') ds \<or> hd ds \<noteq> CHR ''0'')"

definition flush :: "string \<Rightarrow> token list option \<Rightarrow> token list option" where
  "flush ds r =
     (if ds = [] then r
      else if literal_ok ds then map_option (Cons (TNum (literal_value ds))) r
      else map_option (Cons TBad) r)"

text \<open>The lexer; \<open>ds\<close> holds the digits of the literal being read. \<open>None\<close>: outside the fragment.\<close>

fun lex :: "string \<Rightarrow> string \<Rightarrow> token list option" where
  "lex ds [] = flush ds (Some [])"
| "lex ds (c # cs) =
     (if is_digit c then lex (ds @ [c]) cs
      else if c = CHR '' '' then flush ds (lex [] cs)
      else if c = CHR ''+'' then flush ds (map_option (Cons TPlus) (lex [] cs))
      else if c = CHR ''*'' then
        (case cs of
           [] \<Rightarrow> flush ds (Some [TStar])
         | c' # cs' \<Rightarrow>
             (if c' = CHR ''*'' then flush ds (map_option (Cons TPow) (lex [] cs'))
              else flush ds (map_option (Cons TStar) (lex [] cs))))
      else None)"

text \<open>A \<open>+\<close> that does not follow an operand is a unary plus, the identity on integers.\<close>

fun drop_unary :: "bool \<Rightarrow> token list \<Rightarrow> token list" where
  "drop_unary after_operand [] = []"
| "drop_unary after_operand (TPlus # ts) =
     (if after_operand then TPlus # drop_unary False ts else drop_unary False ts)"
| "drop_unary after_operand (TNum n # ts) = TNum n # drop_unary True ts"
| "drop_unary after_operand (t # ts) = t # drop_unary False ts"

fun split_tokens :: "token \<Rightarrow> token list \<Rightarrow> token list \<Rightarrow> token list list" where
  "split_tokens sep cur [] = [cur]"
| "split_tokens sep cur (t # ts) =
     (if t = sep then cur # split_tokens sep [] ts else split_tokens sep (cur @ [t]) ts)"

text \<open>\<open>**\<close> associates to the right and binds tighter than \<open>*\<close>, which binds tighter than \<open>+\<close>.\<close>

fun eval_power :: "token list \<Rightarrow> nat option" where
  "eval_power [TNum n] = Some n"
| "eval_power (TNum n # TPow # ts) = map_option (\<lambda>e. n ^ e) (eval_power ts)"
| "eval_power ts = None"

fun combine :: "(nat \<Rightarrow> nat \<Rightarrow> nat) \<Rightarrow> nat \<Rightarrow> nat option list \<Rightarrow> nat option" where
  "combine f a [] = Some a"
| "combine f a (None # xs) = None"
| "combine f a (Some x # xs) = combine f (f a x) xs"

definition eval_term :: "token list \<Rightarrow> nat option" where
  "eval_term ts = combine (*) 1 (map eval_power (split_tokens TStar [] ts))"

definition eval_sum :: "token list \<Rightarrow> nat option" where
  "eval_sum ts = combine (+) 0 (map eval_term (split_tokens TPlus [] ts))"

definition arith_eval :: "string \<Rightarrow> exn + pyobj" where
  "arith_eval s =
     (case lex [] s of
        None \<Rightarrow> Inl (Raised True ''NotImplementedError'' ''outside the arithmetic fragment'')
      | Some ts \<Rightarrow>
          (case eval_sum (drop_unary False ts) of
             None \<Rightarrow> Inl (Raised True ''SyntaxError'' ''invalid syntax'')
           | Some n \<Rightarrow> Inr (PyInt (int n))))"

text \<open>
  A scripted reasoning capability for concrete runs: the \<open>k\<close>-th call is answered with the
  \<open>k\<close>-th text of the script, and with the last text once the script is used up.
\<close>

fun scripted :: "string list \<Rightarrow> nat \<Rightarrow> string" where
  "scripted [] k = []"
| "scripted [r] k = r"
| "scripted (r # rs) 0 = r"
| "scripted (r # rs) (Suc k) = scripted rs k"

section \<open>mcp\_travel\_langgraph.py: the travel planning graph\<close>

text \<open>
  \<open>EnhancedTravelState\<close> is a dict; its values are texts, lists of texts, booleans, the
  message list and structured data (dicts and lists, kept by their text).
\<close>

datatype tval = Text string | TextList "string list" | Flag bool | Data string | Messages "message list"

type_synonym travel_state = "(string \<times> tval) list"

text \<open>
  Reading a field for an f-string or a \<open>join\<close>. A missing key raises \<open>KeyError\<close>. A field that
  holds a value of another type than the one \<open>EnhancedTravelState\<close> declares is outside the
  model and reported as such.
\<close>

definition ill_typed :: "string \<Rightarrow> exn" where
  "ill_typed k = Raised True ''NotImplementedError'' (''ill-typed field '' @ k)"

definition text_field :: "travel_state \<Rightarrow> string \<Rightarrow> exn + string" where
  "text_field st k =
     (case map_of st k of
        None \<Rightarrow> Inl (Raised True ''KeyError'' (quoted k))
      | Some (Text s) \<Rightarrow> Inr s
      | Some v \<Rightarrow> Inl (ill_typed k))"

definition list_field :: "travel_state \<Rightarrow> string \<Rightarrow> exn + string list" where
  "list_field st k =
     (case map_of st k of
        None \<Rightarrow> Inl (Raised True ''KeyError'' (quoted k))
      | Some (TextList xs) \<Rightarrow> Inr xs
      | Some v \<Rightarrow> Inl (ill_typed k))"

text \<open>\<open>sep.join(xs)\<close>.\<close>

fun str_join :: "string \<Rightarrow> string list \<Rightarrow> string" where
  "str_join sep [] = []"
| "str_join sep [x] = x"
| "str_join sep (x # xs) = x @ sep @ str_join sep xs"

text \<open>The prompt of \<open>collect_requirements\<close>; the fields are read in the order of the f-string.\<close>

definition requirements_prompt :: "travel_state \<Rightarrow> exn + string" where
  "requirements_prompt st =
     (case text_field st ''destination'' of Inl e \<Rightarrow> Inl e | Inr destination \<Rightarrow>
      (case text_field st ''duration'' of Inl e \<Rightarrow> Inl e | Inr duration \<Rightarrow>
       (case text_field st ''budget'' of Inl e \<Rightarrow> Inl e | Inr budget \<Rightarrow>
        (case list_field st ''preferences'' of Inl e \<Rightarrow> Inl e | Inr preferences \<Rightarrow>
         (case text_field st ''travel_type'' of Inl e \<Rightarrow> Inl e | Inr travel_type \<Rightarrow>
            Inr (([CHR 0xE5, CHR 0x88, CHR 0x86, CHR 0xE6, CHR 0x9E, CHR 0x90, CHR 0xE7, CHR 0x94, CHR 0xA8] @
                  [CHR 0xE6, CHR 0x88, CHR 0xB7, CHR 0xE7, CHR 0x9A, CHR 0x84, CHR 0xE6, CHR 0x97, CHR 0x85] @
                  [CHR 0xE6, CHR 0xB8, CHR 0xB8, CHR 0xE9, CHR 0x9C, CHR 0x80, CHR 0xE6, CHR 0xB1, CHR 0x82] @
                  [CHR 0xEF, CHR 0xBC, CHR 0x9A, CHR 0x0A, CHR 0xE7, CHR 0x9B, CHR 0xAE, CHR 0xE7, CHR 0x9A] @
                  [CHR 0x84, CHR 0xE5, CHR 0x9C, CHR 0xB0, CHR 0xEF, CHR 0xBC, CHR 0x9A]) @ destination @
                 ([CHR 0x0A, CHR 0xE6, CHR 0x97, CHR 0xB6, CHR 0xE9, CHR 0x95, CHR 0xBF, CHR 0xEF, CHR 0xBC] @
                  [CHR 0x9A]) @ duration @
                 ([CHR 0x0A, CHR 0xE9, CHR 0xA2, CHR 0x84, CHR 0xE7, CHR 0xAE, CHR 0x97, CHR 0xEF, CHR 0xBC] @
                  [CHR 0x9A]) @ budget @
                 ([CHR 0x0A, CHR 0xE5, CHR 0x81, CHR 0x8F, CHR 0xE5, CHR 0xA5, CHR 0xBD, CHR 0xEF, CHR 0xBC] @
                  [CHR 0x9A]) @ str_join '', '' preferences @
                 ([CHR 0x0A, CHR 0xE7, CHR 0xB1, CHR 0xBB, CHR 0xE5, CHR 0x9E, CHR 0x8B, CHR 0xEF, CHR 0xBC] @
                  [CHR 0x9A]) @ travel_type @
                 ([CHR 0x0A, CHR 0x0A, CHR 0xE8, CHR 0xAF, CHR 0xB7, CHR 0xE6, CHR 0x8F, CHR 0x90, CHR 0xE4] @
                  [CHR 0xBE, CHR 0x9B, CHR 0xE9, CHR 0x9C, CHR 0x80, CHR 0xE6, CHR 0xB1, CHR 0x82, CHR 0xE5] @
                  [CHR 0x88, CHR 0x86, CHR 0xE6, CHR 0x9E, CHR 0x90, CHR 0xE5, CHR 0x92, CHR 0x8C, CHR 0xE5] @
                  [CHR 0xBB, CHR 0xBA, CHR 0xE8, CHR 0xAE, CHR 0xAE, CHR 0xE3, CHR 0x80, CHR 0x82])))))))"

text \<open>
  \<open>collect_requirements\<close>: \<open>llm\<close> is the reasoning capability, which returns the content of
  its reply or raises. The node returns the state with \<open>current_step\<close> and \<open>messages\<close>
  replaced.
\<close>

definition collect_requirements ::
  "(string \<Rightarrow> exn + string) \<Rightarrow> travel_state \<Rightarrow> exn + travel_state" where
  "collect_requirements llm st =
     (case requirements_prompt st of
        Inl e \<Rightarrow> Inl e
      | Inr prompt \<Rightarrow>
          (case llm prompt of
             Inl e \<Rightarrow> Inl e
           | Inr response \<Rightarrow>
               Inr (AList.update ''messages''
                      (Messages [\<lparr>role = ''human'', content = prompt\<rparr>,
                                 \<lparr>role = ''ai'', content = response\<rparr>])
                      (AList.update ''current_step'' (Text ''weather_check'') st))))"

text \<open>
  \<open>route_next\<close>. \<open>state.get("current_step", "collect")\<close> falls back to \<open>collect\<close> on a missing
  key; \<open>step_map.get(current, "end")\<close> falls back to \<open>end\<close> on a step it does not list, and
  raises \<open>TypeError\<close> on a list or a dict, which cannot be hashed.
\<close>

definition step_map :: "(string \<times> string) list" where
  "step_map =
     [(''collect'', ''weather''),
      (''weather_check'', ''attractions''),
      (''find_attractions'', ''restaurants''),
      (''find_restaurants'', ''hotels''),
      (''find_hotels'', ''schedule''),
      (''create_schedule'', ''budget''),
      (''calculate_budget'', ''generate''),
      (''generate_plan'', ''review''),
      (''review'', ''end''),
      (''end'', ''end'')]"

definition current_step_of :: "travel_state \<Rightarrow> tval" where
  "current_step_of st =
     (case map_of st ''current_step'' of None \<Rightarrow> Text ''collect'' | Some v \<Rightarrow> v)"

definition step_map_get :: "tval \<Rightarrow> exn + string" where
  "step_map_get current =
     (case current of
        Text s \<Rightarrow> (case map_of step_map s of None \<Rightarrow> Inr ''end'' | Some next \<Rightarrow> Inr next)
      | Flag b \<Rightarrow> Inr ''end''
      | _ \<Rightarrow> Inl (Raised True ''TypeError'' ''unhashable type''))"

definition route_next :: "travel_state \<Rightarrow> exn + string" where
  "route_next st =
     (case step_map_get (current_step_of st) of
        Inl e \<Rightarrow> Inl e
      | Inr next_step \<Rightarrow> Inr (if next_step = ''end'' then ''end'' else next_step))"

text \<open>
  The conditional edges \<open>build_and_run_workflow\<close> adds, by node: every node routes through
  \<open>route_next\<close> and maps the label of its successor and \<open>end\<close>. The entry point is \<open>collect\<close>.
\<close>

definition conditional_edges :: "(string \<times> (string \<times> target) list) list" where
  "conditional_edges =
     [(''collect'', [(''weather'', Node ''weather''), (''end'', END)]),
      (''weather'', [(''attractions'', Node ''attractions''), (''end'', END)]),
      (''attractions'', [(''restaurants'', Node ''restaurants''), (''end'', END)]),
      (''restaurants'', [(''hotels'', Node ''hotels''), (''end'', END)]),
      (''hotels'', [(''schedule'', Node ''schedule''), (''end'', END)]),
      (''schedule'', [(''budget'', Node ''budget''), (''end'', END)]),
      (''budget'', [(''generate'', Node ''generate''), (''end'', END)]),
      (''generate'', [(''review'', Node ''review''), (''end'', END)]),
      (''review'', [(''end'', END)])]"

definition travel_routing :: "string \<Rightarrow> travel_state routing option" where
  "travel_routing node = map_option (ConditionalEdges route_next) (map_of conditional_edges node)"

text \<open>The initial state \<open>build_and_run_workflow\<close> builds from its arguments.\<close>

definition initial_travel_state ::
  "string \<Rightarrow> string \<Rightarrow> string \<Rightarrow> string list \<Rightarrow> string \<Rightarrow> travel_state" where
  "initial_travel_state destination duration budget preferences travel_type =
     [(''destination'', Text destination),
      (''duration'', Text duration),
      (''budget'', Text budget),
      (''preferences'', TextList preferences),
      (''travel_type'', Text travel_type),
      (''weather_info'', Data ''{}''),
      (''attractions'', Data ''[]''),
      (''restaurants'', Data ''[]''),
      (''hotels'', Data ''[]''),
      (''daily_schedule'', Data ''[]''),
      (''budget_breakdown'', Data ''{}''),
      (''final_plan'', Text []),
      (''messages'', Messages []),
      (''current_step'', Text ''collect''),
      (''user_feedback'', Text []),
      (''revision_needed'', Flag False)]"

section \<open>multi\_agent\_async.py: the research team\<close>

text \<open>
  A task result is the dict every agent returns. Time is read from the clock
  (\<open>datetime.now()\<close>), an input here: \<open>clock k\<close> is the \<open>k\<close>-th reading taken by the call
  at hand, in seconds.
\<close>

record task_result =
  agent :: string
  task :: string
  result :: string
  duration :: real
  timestamp :: real
  success :: bool

text \<open>
  \<open>ResearchAgent.ainvoke\<close> and \<open>AnalystAgent.ainvoke\<close> (the same code up to the texts they
  print). \<open>outcome\<close> is what \<open>executor.invoke\<close> does, which is external: it raises, or it
  returns a dict, whose \<open>output\<close> entry the \<open>try\<close> block reads. \<open>except Exception\<close> turns an
  exception into a failure record; one that is not an \<open>Exception\<close> propagates.
\<close>

definition executor_output :: "exn + (string \<times> string) list \<Rightarrow> exn + string" where
  "executor_output outcome =
     (case outcome of
        Inl e \<Rightarrow> Inl e
      | Inr answer \<Rightarrow>
          (case map_of answer ''output'' of
             None \<Rightarrow> Inl (Raised True ''KeyError'' (quoted ''output''))
           | Some out \<Rightarrow> Inr out))"

definition task_failed :: string where
  "task_failed =
     ([CHR 0xE4, CHR 0xBB, CHR 0xBB, CHR 0xE5, CHR 0x8A, CHR 0xA1, CHR 0xE6, CHR 0x89, CHR 0xA7] @
      [CHR 0xE8, CHR 0xA1, CHR 0x8C, CHR 0xE5, CHR 0xA4, CHR 0xB1, CHR 0xE8, CHR 0xB4, CHR 0xA5] @
      '': '')"

definition ainvoke ::
  "string \<Rightarrow> string \<Rightarrow> exn + (string \<times> string) list \<Rightarrow> (nat \<Rightarrow> real) \<Rightarrow> exn + task_result" where
  "ainvoke name task_text outcome clock =
     (case executor_output outcome of
        Inr out \<Rightarrow>
          Inr \<lparr>agent = name, task = task_text, result = out,
               duration = clock 1 - clock 0, timestamp = clock 1, success = True\<rparr>
      | Inl e \<Rightarrow>
          (if is_Exception e then
             Inr \<lparr>agent = name, task = task_text, result = task_failed @ exn_str e,
                  duration = clock 1 - clock 0, timestamp = clock 1, success = False\<rparr>
           else Inl e))"

text \<open>
  Modelled from the spec: \<open>asyncio.gather(*tasks, return_exceptions=True)\<close>, a library
  function, after sections 4.3 and 5 (results in submission order, independent of the
  completion order; a failed task cancels no sibling). \<open>order\<close> lists the positions of the
  tasks in the order in which they complete; a task that completes stores its outcome, a
  raised exception included, under its position. The call returns once every task has
  completed, and then gives the outcomes by position; \<open>None\<close> is a call that never returns.
\<close>

definition finished :: "nat list \<Rightarrow> 'a list \<Rightarrow> nat \<Rightarrow> 'a option" where
  "finished order outcomes =
     fold (\<lambda>i done. if i < length outcomes then done(i \<mapsto> outcomes ! i) else done) order Map.empty"

definition gather :: "nat list \<Rightarrow> 'a list \<Rightarrow> 'a list option" where
  "gather order outcomes = those (map (finished order outcomes) [0..<length outcomes])"

text \<open>
  The loop of \<open>ResearchTeam.research\<close> over \<open>enumerate(search_results)\<close>: an exception object
  that is an \<open>Exception\<close> becomes a failure record named after its position, anything else
  is appended as it is. \<open>now i\<close> is the clock reading of iteration \<open>i\<close>.
\<close>

definition search_task :: string where
  "search_task =
     ([CHR 0xE6, CHR 0x90, CHR 0x9C, CHR 0xE7, CHR 0xB4, CHR 0xA2, CHR 0xE4, CHR 0xBB, CHR 0xBB] @
      [CHR 0xE5, CHR 0x8A, CHR 0xA1])"

definition exception_text :: string where
  "exception_text =
     ([CHR 0xE5, CHR 0xBC, CHR 0x82, CHR 0xE5, CHR 0xB8, CHR 0xB8] @ '': '')"

definition exception_record :: "nat \<Rightarrow> exn \<Rightarrow> real \<Rightarrow> task_result" where
  "exception_record i e t =
     \<lparr>agent = ''Agent-'' @ str_int (int i + 1), task = search_task,
      result = exception_text @ exn_str e, duration = 0, timestamp = t, success = False\<rparr>"

definition process_result :: "(nat \<Rightarrow> real) \<Rightarrow> nat \<Rightarrow> exn + task_result \<Rightarrow> exn + task_result" where
  "process_result now i r =
     (case r of
        Inl e \<Rightarrow> (if is_Exception e then Inr (exception_record i e (now i)) else Inl e)
      | Inr d \<Rightarrow> Inr d)"

definition processed_results ::
  "(nat \<Rightarrow> real) \<Rightarrow> (exn + task_result) list \<Rightarrow> (exn + task_result) list" where
  "processed_results now search_results =
     map (\<lambda>(i, r). process_result now i r) (List.enumerate 0 search_results)"

text \<open>Lines 395 to 411 of \<open>research\<close>: the gathering of the tasks and the loop over the results.\<close>

definition run_tasks ::
  "nat list \<Rightarrow> (nat \<Rightarrow> real) \<Rightarrow> (exn + task_result) list \<Rightarrow> (exn + task_result) list option" where
  "run_tasks order now outcomes = map_option (processed_results now) (gather order outcomes)"

text \<open>
  \<open>SummarizerAgent.ainvoke\<close>. \<open>r.get('success', False)\<close> raises \<open>AttributeError\<close> on an entry
  that is not a dict. \<open>fmt2f\<close> is Python's float format \<open>:.2f\<close> and \<open>llm\<close> the reasoning
  capability (\<open>self.llm.invoke\<close>); the second component of the result lists the prompts sent
  to it.
\<close>

fun successful_results :: "(exn + task_result) list \<Rightarrow> exn + task_result list" where
  "successful_results [] = Inr []"
| "successful_results (Inl e # rs) =
     Inl (Raised True ''AttributeError'' (quoted (exn_class e) @ '' object has no attribute '' @ quoted ''get''))"
| "successful_results (Inr r # rs) =
     (case successful_results rs of
        Inl e \<Rightarrow> Inl e
      | Inr ok \<Rightarrow> Inr (if success r then r # ok else ok))"

definition result_block :: "(real \<Rightarrow> string) \<Rightarrow> task_result \<Rightarrow> string" where
  "result_block fmt2f r =
     [CHR 0xE3, CHR 0x80, CHR 0x90] @ agent r @
     ([CHR 0xE3, CHR 0x80, CHR 0x91, CHR 0x0A, CHR 0xE4, CHR 0xBB, CHR 0xBB, CHR 0xE5, CHR 0x8A] @
      [CHR 0xA1] @ '': '') @ task r @
     ([CHR 0x0A, CHR 0xE7, CHR 0xBB, CHR 0x93, CHR 0xE6, CHR 0x9E, CHR 0x9C] @ '':'' @
      [CHR 0x0A]) @ result r @
     ([CHR 0x0A, CHR 0xE8, CHR 0x80, CHR 0x97, CHR 0xE6, CHR 0x97, CHR 0xB6] @ '': '') @ fmt2f (duration r) @
     [CHR 0xE7, CHR 0xA7, CHR 0x92]"

definition combined_info :: "(real \<Rightarrow> string) \<Rightarrow> task_result list \<Rightarrow> string" where
  "combined_info fmt2f ok = str_join [CHR 0x0A, CHR 0x0A] (map (result_block fmt2f) ok)"

definition report_prompt :: "string \<Rightarrow> string" where
  "report_prompt info =
     ([CHR 0xE8, CHR 0xAF, CHR 0xB7, CHR 0xE5, CHR 0xB0, CHR 0x86, CHR 0xE4, CHR 0xBB, CHR 0xA5] @
      [CHR 0xE4, CHR 0xB8, CHR 0x8B, CHR 0xE5, CHR 0xA4, CHR 0x9A, CHR 0xE4, CHR 0xB8, CHR 0xAA] @
      [CHR 0xE6, CHR 0x99, CHR 0xBA, CHR 0xE8, CHR 0x83, CHR 0xBD, CHR 0xE4, CHR 0xBD, CHR 0x93] @
      [CHR 0xE7, CHR 0x9A, CHR 0x84, CHR 0xE5, CHR 0xB7, CHR 0xA5, CHR 0xE4, CHR 0xBD, CHR 0x9C] @
      [CHR 0xE7, CHR 0xBB, CHR 0x93, CHR 0xE6, CHR 0x9E, CHR 0x9C, CHR 0xE6, CHR 0x95, CHR 0xB4] @
      [CHR 0xE5, CHR 0x90, CHR 0x88, CHR 0xE6, CHR 0x88, CHR 0x90, CHR 0xE4, CHR 0xB8, CHR 0x80] @
      [CHR 0xE4, CHR 0xBB, CHR 0xBD, CHR 0xE4, CHR 0xB8, CHR 0x93, CHR 0xE4, CHR 0xB8, CHR 0x9A] @
      [CHR 0xE3, CHR 0x80, CHR 0x81, CHR 0xE7, CHR 0xBB, CHR 0x93, CHR 0xE6, CHR 0x9E, CHR 0x84] @
      [CHR 0xE5, CHR 0x8C, CHR 0x96, CHR 0xE7, CHR 0x9A, CHR 0x84, CHR 0xE7, CHR 0xA0, CHR 0x94] @
      [CHR 0xE7, CHR 0xA9, CHR 0xB6, CHR 0xE6, CHR 0x8A, CHR 0xA5, CHR 0xE5, CHR 0x91, CHR 0x8A] @
      [CHR 0xEF, CHR 0xBC, CHR 0x9A, CHR 0x0A, CHR 0x0A]) @
     info @
     ([CHR 0x0A, CHR 0x0A, CHR 0xE6, CHR 0x8A, CHR 0xA5, CHR 0xE5, CHR 0x91, CHR 0x8A, CHR 0xE8] @
      [CHR 0xA6, CHR 0x81, CHR 0xE6, CHR 0xB1, CHR 0x82, CHR 0xEF, CHR 0xBC, CHR 0x9A, CHR 0x0A] @
      ''1. **'' @
      [CHR 0xE6, CHR 0x89, CHR 0xA7, CHR 0xE8, CHR 0xA1, CHR 0x8C, CHR 0xE6, CHR 0x91, CHR 0x98] @
      [CHR 0xE8, CHR 0xA6, CHR 0x81] @ ''** (100'' @
      [CHR 0xE5, CHR 0xAD, CHR 0x97, CHR 0xE5, CHR 0xB7, CHR 0xA6, CHR 0xE5, CHR 0x8F, CHR 0xB3] @
      '')'' @ [CHR 0x0A] @ ''   - '' @
      [CHR 0xE7, CHR 0xAE, CHR 0x80, CHR 0xE6, CHR 0x98, CHR 0x8E, CHR 0xE6, CHR 0x89, CHR 0xBC] @
      [CHR 0xE8, CHR 0xA6, CHR 0x81, CHR 0xE5, CHR 0x9C, CHR 0xB0, CHR 0xE6, CHR 0xA6, CHR 0x82] @
      [CHR 0xE6, CHR 0x8B, CHR 0xAC, CHR 0xE6, CHR 0xA0, CHR 0xB8, CHR 0xE5, CHR 0xBF, CHR 0x83] @
      [CHR 0xE5, CHR 0x8F, CHR 0x91, CHR 0xE7, CHR 0x8E, CHR 0xB0, CHR 0x0A] @ ''   '' @
      [CHR 0x0A] @ ''2. **'' @
      [CHR 0xE5, CHR 0x85, CHR 0xB3, CHR 0xE9, CHR 0x94, CHR 0xAE, CHR 0xE5, CHR 0x8F, CHR 0x91] @
      [CHR 0xE7, CHR 0x8E, CHR 0xB0] @ ''** ('' @
      [CHR 0xE5, CHR 0x88, CHR 0x86, CHR 0xE7, CHR 0x82, CHR 0xB9, CHR 0xE5, CHR 0x88, CHR 0x97] @
      [CHR 0xE5, CHR 0x87, CHR 0xBA] @ ''3-5'' @
      [CHR 0xE4, CHR 0xB8, CHR 0xAA, CHR 0xE8, CHR 0xA6, CHR 0x81, CHR 0xE7, CHR 0x82, CHR 0xB9] @
      '')'' @ [CHR 0x0A] @ ''   - '' @
      [CHR 0xE7, CHR 0xAA, CHR 0x81, CHR 0xE5, CHR 0x87, CHR 0xBA, CHR 0xE6, CHR 0x9C, CHR 0x80] @
      [CHR 0xE9, CHR 0x87, CHR 0x8D, CHR 0xE8, CHR 0xA6, CHR 0x81, CHR 0xE7, CHR 0x9A, CHR 0x84] @
      [CHR 0xE4, CHR 0xBF, CHR 0xA1, CHR 0xE6, CHR 0x81, CHR 0xAF, CHR 0xE5, CHR 0x92, CHR 0x8C] @
      [CHR 0xE6, CHR 0xB4, CHR 0x9E, CHR 0xE5, CHR 0xAF, CHR 0x9F, CHR 0x0A] @ ''   '' @
      [CHR 0x0A] @ ''3. **'' @
      [CHR 0xE8, CHR 0xAF, CHR 0xA6, CHR 0xE7, CHR 0xBB, CHR 0x86, CHR 0xE5, CHR 0x88, CHR 0x86] @
      [CHR 0xE6, CHR 0x9E, CHR 0x90] @ ''** (300-400'' @
      [CHR 0xE5, CHR 0xAD, CHR 0x97] @ '')'' @ [CHR 0x0A] @ ''   - '' @
      [CHR 0xE6, CHR 0xB7, CHR 0xB1, CHR 0xE5, CHR 0x85, CHR 0xA5, CHR 0xE5, CHR 0x88, CHR 0x86] @
      [CHR 0xE6, CHR 0x9E, CHR 0x90, CHR 0xE5, CHR 0x90, CHR 0x84, CHR 0xE9, CHR 0xA1, CHR 0xB9] @
      [CHR 0xE5, CHR 0x8F, CHR 0x91, CHR 0xE7, CHR 0x8E, CHR 0xB0, CHR 0xE7, CHR 0x9A, CHR 0x84] @
      [CHR 0xE6, CHR 0x84, CHR 0x8F, CHR 0xE4, CHR 0xB9, CHR 0x89, CHR 0x0A] @
      ''   - '' @
      [CHR 0xE8, CHR 0xA7, CHR 0xA3, CHR 0xE9, CHR 0x87, CHR 0x8A, CHR 0xE6, CHR 0x95, CHR 0xB0] @
      [CHR 0xE6, CHR 0x8D, CHR 0xAE, CHR 0xE8, CHR 0x83, CHR 0x8C, CHR 0xE5, CHR 0x90, CHR 0x8E] @
      [CHR 0xE7, CHR 0x9A, CHR 0x84, CHR 0xE8, CHR 0xB6, CHR 0x8B, CHR 0xE5, CHR 0x8A, CHR 0xBF] @
      [CHR 0xE5, CHR 0x92, CHR 0x8C, CHR 0xE6, CHR 0xA8, CHR 0xA1, CHR 0xE5, CHR 0xBC, CHR 0x8F] @
      [CHR 0x0A] @ ''   '' @ [CHR 0x0A] @ ''4. **'' @
      [CHR 0xE7, CHR 0xBB, CHR 0x93, CHR 0xE8, CHR 0xAE, CHR 0xBA, CHR 0xE5, CHR 0x92, CHR 0x8C] @
      [CHR 0xE5, CHR 0xBB, CHR 0xBA, CHR 0xE8, CHR 0xAE, CHR 0xAE] @ ''** (100-150'' @
      [CHR 0xE5, CHR 0xAD, CHR 0x97] @ '')'' @ [CHR 0x0A] @ ''   - '' @
      [CHR 0xE6, CHR 0x8F, CHR 0x90, CHR 0xE4, CHR 0xBE, CHR 0x9B, CHR 0xE5, CHR 0x8F, CHR 0xAF] @
      [CHR 0xE6, CHR 0x93, CHR 0x8D, CHR 0xE4, CHR 0xBD, CHR 0x9C, CHR 0xE7, CHR 0x9A, CHR 0x84] @
      [CHR 0xE5, CHR 0xBB, CHR 0xBA, CHR 0xE8, CHR 0xAE, CHR 0xAE, CHR 0x0A] @
      ''   - '' @
      [CHR 0xE6, CHR 0x8C, CHR 0x87, CHR 0xE5, CHR 0x87, CHR 0xBA, CHR 0xE6, CHR 0x9C, CHR 0xAA] @
      [CHR 0xE6, CHR 0x9D, CHR 0xA5, CHR 0xE5, CHR 0x8F, CHR 0x91, CHR 0xE5, CHR 0xB1, CHR 0x95] @
      [CHR 0xE6, CHR 0x96, CHR 0xB9, CHR 0xE5, CHR 0x90, CHR 0x91, CHR 0x0A, CHR 0x0A, CHR 0xE8] @
      [CHR 0xAF, CHR 0xB7, CHR 0xE4, CHR 0xBD, CHR 0xBF, CHR 0xE7, CHR 0x94, CHR 0xA8, CHR 0xE4] @
      [CHR 0xB8, CHR 0x93, CHR 0xE4, CHR 0xB8, CHR 0x9A, CHR 0xE7, CHR 0x9A, CHR 0x84, CHR 0xE8] @
      [CHR 0xAF, CHR 0xAD, CHR 0xE8, CHR 0xA8, CHR 0x80, CHR 0xEF, CHR 0xBC, CHR 0x8C, CHR 0xE4] @
      [CHR 0xBF, CHR 0x9D, CHR 0xE6, CHR 0x8C, CHR 0x81, CHR 0xE9, CHR 0x80, CHR 0xBB, CHR 0xE8] @
      [CHR 0xBE, CHR 0x91, CHR 0xE6, CHR 0xB8, CHR 0x85, CHR 0xE6, CHR 0x99, CHR 0xB0, CHR 0xEF] @
      [CHR 0xBC, CHR 0x8C, CHR 0xE4, CHR 0xBD, CHR 0xBF, CHR 0xE7, CHR 0x94, CHR 0xA8, CHR 0xE9] @
      [CHR 0x80, CHR 0x82, CHR 0xE5, CHR 0xBD, CHR 0x93, CHR 0xE7, CHR 0x9A, CHR 0x84] @
      ''emoji'' @
      [CHR 0xE5, CHR 0x92, CHR 0x8C, CHR 0xE6, CHR 0xA0, CHR 0xBC, CHR 0xE5, CHR 0xBC, CHR 0x8F] @
      [CHR 0xE5, CHR 0xA2, CHR 0x9E, CHR 0xE5, CHR 0xBC, CHR 0xBA, CHR 0xE5, CHR 0x8F, CHR 0xAF] @
      [CHR 0xE8, CHR 0xAF, CHR 0xBB, CHR 0xE6, CHR 0x80, CHR 0xA7, CHR 0xE3, CHR 0x80, CHR 0x82] @
      [CHR 0x0A])"

definition integrate_task :: string where
  "integrate_task =
     ([CHR 0xE6, CHR 0x95, CHR 0xB4, CHR 0xE5, CHR 0x90, CHR 0x88, CHR 0xE6, CHR 0x89, CHR 0x80] @
      [CHR 0xE6, CHR 0x9C, CHR 0x89, CHR 0xE7, CHR 0xBB, CHR 0x93, CHR 0xE6, CHR 0x9E, CHR 0x9C])"

definition all_failed_text :: string where
  "all_failed_text =
     ([CHR 0xE2, CHR 0x9D, CHR 0x8C] @ '' '' @
      [CHR 0xE6, CHR 0x89, CHR 0x80, CHR 0xE6, CHR 0x9C, CHR 0x89, CHR 0xE5, CHR 0x89, CHR 0x8D] @
      [CHR 0xE7, CHR 0xBD, CHR 0xAE, CHR 0xE4, CHR 0xBB, CHR 0xBB, CHR 0xE5, CHR 0x8A, CHR 0xA1] @
      [CHR 0xE9, CHR 0x83, CHR 0xBD, CHR 0xE5, CHR 0xA4, CHR 0xB1, CHR 0xE8, CHR 0xB4, CHR 0xA5] @
      [CHR 0xE4, CHR 0xBA, CHR 0x86, CHR 0xEF, CHR 0xBC, CHR 0x8C, CHR 0xE6, CHR 0x97, CHR 0xA0] @
      [CHR 0xE6, CHR 0xB3, CHR 0x95, CHR 0xE7, CHR 0x94, CHR 0x9F, CHR 0xE6, CHR 0x88, CHR 0x90] @
      [CHR 0xE6, CHR 0x8A, CHR 0xA5, CHR 0xE5, CHR 0x91, CHR 0x8A])"

definition integrate_failed :: string where
  "integrate_failed =
     ([CHR 0xE6, CHR 0x95, CHR 0xB4, CHR 0xE5, CHR 0x90, CHR 0x88, CHR 0xE5, CHR 0xA4, CHR 0xB1] @
      [CHR 0xE8, CHR 0xB4, CHR 0xA5] @ '': '')"

definition summarizer_ainvoke ::
  "string \<Rightarrow> (real \<Rightarrow> string) \<Rightarrow> (string \<Rightarrow> exn + string) \<Rightarrow> (nat \<Rightarrow> real) \<Rightarrow>
   (exn + task_result) list \<Rightarrow> (exn + task_result) \<times> string list" where
  "summarizer_ainvoke name fmt2f llm clock results =
     (case successful_results results of
        Inl e \<Rightarrow> (Inl e, [])
      | Inr ok \<Rightarrow>
          (if ok = [] then
             (Inr \<lparr>agent = name, task = integrate_task, result = all_failed_text,
                   duration = 0, timestamp = clock 1, success = False\<rparr>, [])
           else
             (let prompt = report_prompt (combined_info fmt2f ok) in
                (case llm prompt of
                   Inr reply \<Rightarrow>
                     (Inr \<lparr>agent = name, task = integrate_task, result = reply,
                           duration = clock 1 - clock 0, timestamp = clock 1, success = True\<rparr>,
                      [prompt])
                 | Inl e \<Rightarrow>
                     (if is_Exception e then
                        (Inr \<lparr>agent = name, task = integrate_task,
                              result = integrate_failed @ exn_str e,
                              duration = clock 1 - clock 0, timestamp = clock 1, success = False\<rparr>,
                         [prompt])
                      else (Inl e, [prompt]))))))"





section \<open>Properties of the ReAct graph\<close>

subsection \<open>Single steps of the engine on the graph\<close>

lemma agent_step:
  assumes "map_of st ''messages'' = Some (Msgs ms)" and "map_of st ''iterations'' = Some (Num n)"
  shows "engine_step (workflow llm ev) ''agent'' st k =
           Inr (if str_in ''Final Answer'' (llm k) \<or> 4 \<le> n then END else Node ''tools'',
                AList.update ''iterations'' (Num (n + 1))
                  (AList.update ''messages'' (Msgs (ms @ [\<lparr>role = ''assistant'', content = llm k\<rparr>])) st),
                Suc k)"
  using assms
  by (simp add: engine_step_def workflow_def agent_node_def state_get_def ReActState_def
      resolve_def should_continue_def last_content_def update_conv')

lemma tools_step:
  assumes "map_of st ''messages'' = Some (Msgs ms)" and "ms \<noteq> []"
    and "tool_result ev (content (last ms)) = Inr v"
  shows "engine_step (workflow llm ev) ''tools'' st k =
           Inr (Node ''agent'',
                AList.update ''messages''
                  (Msgs (ms @ [\<lparr>role = ''tool'', content = ''Observation: '' @ py_str v\<rparr>])) st,
                k)"
  using assms
  by (simp add: engine_step_def workflow_def tool_node_def state_get_def ReActState_def
      resolve_def last_content_def)

lemma keys_update_present:
  "map_of al k = Some v \<Longrightarrow> map fst (AList.update k v' al) = map fst al"
  by (induction al) auto

lemma engine_run_Node:
  "engine_step g node s w = Inr (Node next, s', w') \<Longrightarrow>
   engine_run g fuel next s' w' = Inr (sf, w2, visited) \<Longrightarrow>
   engine_run g (Suc fuel) node s w = Inr (sf, w2, node # visited)"
  by simp

lemma engine_run_END:
  "engine_step g node s w = Inr (END, s', w') \<Longrightarrow>
   engine_run g (Suc fuel) node s w = Inr (s', w', [node])"
  by simp

lemma engine_step_target:
  assumes "engine_step g node s w = Inr (t, s', w')"
  shows "resolve node (map_of (g_edges g) node) s' = Inr t"
  using assms
  by (auto simp: engine_step_def split: option.splits sum.splits prod.splits)


subsection \<open>The loop from the \<open>agent\<close> node to the iteration cap\<close>

lemma react_loop:
  assumes "map_of st ''messages'' = Some (Msgs ms)"
    and "map_of st ''iterations'' = Some (Num (4 - int m))"
    and "\<forall>i\<le>m. \<not> str_in ''Final Answer'' (llm (k + i))"
    and "\<forall>i<m. \<exists>v. tool_result ev (llm (k + i)) = Inr v"
    and "2 * m + 1 \<le> fuel"
  shows "\<exists>sf ms'. engine_run (workflow llm ev) fuel ''agent'' st k =
             Inr (sf, k + Suc m, concat (replicate m [''agent'', ''tools'']) @ [''agent''])
           \<and> map_of sf ''iterations'' = Some (Num 5)
           \<and> map_of sf ''messages'' =
               Some (Msgs (ms @ ms' @ [\<lparr>role = ''assistant'', content = llm (k + m)\<rparr>]))
           \<and> map fst sf = map fst st"
  using assms
proof (induction m arbitrary: st ms k fuel)
  case 0
  then obtain f where f: "fuel = Suc f" by (cases fuel) auto
  let ?sf = "AList.update ''iterations'' (Num 5)
               (AList.update ''messages'' (Msgs (ms @ [\<lparr>role = ''assistant'', content = llm k\<rparr>])) st)"
  have step: "engine_step (workflow llm ev) ''agent'' st k = Inr (END, ?sf, Suc k)"
    using agent_step [of st ms "4" llm ev k] 0 by simp
  have "engine_run (workflow llm ev) fuel ''agent'' st k = Inr (?sf, Suc k, [''agent''])"
    unfolding f by (rule engine_run_END [OF step])
  moreover have "map_of ?sf ''iterations'' = Some (Num 5)"
    by (simp add: update_conv')
  moreover have "map_of ?sf ''messages'' = Some (Msgs (ms @ [] @ [\<lparr>role = ''assistant'', content = llm (k + 0)\<rparr>]))"
    by (simp add: update_conv')
  moreover have "map fst ?sf = map fst st"
    using 0 by (simp add: keys_update_present update_conv')
  ultimately show ?case by (intro exI [of _ ?sf] exI [of _ "[]"]) simp
next
  case (Suc m)
  then obtain f where f: "fuel = Suc (Suc f)" and fm: "2 * m + 1 \<le> f"
    by (cases fuel; cases "fuel - 1") auto
  let ?a = "\<lparr>role = ''assistant'', content = llm k\<rparr>"
  let ?s1 = "AList.update ''iterations'' (Num (4 - int m))
               (AList.update ''messages'' (Msgs (ms @ [?a])) st)"
  have nofin: "\<not> str_in ''Final Answer'' (llm k)"
    using Suc.prems(3) by (metis add.right_neutral le0)
  have step1: "engine_step (workflow llm ev) ''agent'' st k = Inr (Node ''tools'', ?s1, Suc k)"
    using agent_step [of st ms "4 - int (Suc m)" llm ev k] Suc.prems(1,2) nofin by simp
  have m1: "map_of ?s1 ''messages'' = Some (Msgs (ms @ [?a]))"
    by (simp add: update_conv')
  obtain v where v: "tool_result ev (llm k) = Inr v"
    using Suc.prems(4) by (metis add.right_neutral zero_less_Suc)
  let ?t = "\<lparr>role = ''tool'', content = ''Observation: '' @ py_str v\<rparr>"
  let ?s2 = "AList.update ''messages'' (Msgs ((ms @ [?a]) @ [?t])) ?s1"
  have step2: "engine_step (workflow llm ev) ''tools'' ?s1 (Suc k) = Inr (Node ''agent'', ?s2, Suc k)"
    using tools_step [of ?s1 "ms @ [?a]" ev v llm "Suc k"] m1 v by simp
  have m2: "map_of ?s2 ''messages'' = Some (Msgs ((ms @ [?a]) @ [?t]))"
    by (simp add: update_conv')
  have i2: "map_of ?s2 ''iterations'' = Some (Num (4 - int m))"
    by (simp add: update_conv')
  have h3: "\<forall>i\<le>m. \<not> str_in ''Final Answer'' (llm (Suc k + i))"
    using Suc.prems(3) by (metis Suc_le_mono add_Suc_shift)
  have h4: "\<forall>i<m. \<exists>v. tool_result ev (llm (Suc k + i)) = Inr v"
    using Suc.prems(4) by (metis Suc_less_eq add_Suc_shift)
  from Suc.IH [OF m2 i2 h3 h4 fm]
  obtain sf ms' where
    run: "engine_run (workflow llm ev) f ''agent'' ?s2 (Suc k) =
            Inr (sf, Suc k + Suc m, concat (replicate m [''agent'', ''tools'']) @ [''agent''])"
    and it: "map_of sf ''iterations'' = Some (Num 5)"
    and msgs: "map_of sf ''messages'' =
                 Some (Msgs (((ms @ [?a]) @ [?t]) @ ms' @ [\<lparr>role = ''assistant'', content = llm (Suc k + m)\<rparr>]))"
    and keys: "map fst sf = map fst ?s2"
    by blast
  note r2 = engine_run_Node [OF step2 run]
  note r3 = engine_run_Node [OF step1 r2]
  have "engine_run (workflow llm ev) fuel ''agent'' st k =
          Inr (sf, k + Suc (Suc m), concat (replicate (Suc m) [''agent'', ''tools'']) @ [''agent''])"
    unfolding f using r3 by simp
  moreover have "map_of sf ''messages'' =
      Some (Msgs (ms @ ([?a, ?t] @ ms') @ [\<lparr>role = ''assistant'', content = llm (k + Suc m)\<rparr>]))"
    using msgs by simp
  moreover have "map fst sf = map fst st"
    using keys Suc.prems(1,2) by (simp add: keys_update_present update_conv')
  ultimately show ?case using it by blast
qed

subsection \<open>Merging a patch into the state\<close>

lemma map_of_None_if_fresh: "k \<notin> fst ` set p \<Longrightarrow> map_of p k = None"
  by (simp add: map_of_eq_None_iff)

lemma operator_add_Msgs:
  "operator_add (Msgs a) v = Inr new \<Longrightarrow> \<exists>b. v = Msgs b \<and> new = Msgs (a @ b)"
  by (cases v) auto

lemma merge_patch_sound:
  "merge_patch ReActState st p = Inr st' \<Longrightarrow> distinct (map fst p) \<Longrightarrow>
     map_of st' ''iterations'' =
       (case map_of p ''iterations'' of None \<Rightarrow> map_of st ''iterations'' | Some v \<Rightarrow> Some v)
   \<and> (\<forall>ms. map_of st ''messages'' = Some (Msgs ms) \<longrightarrow>
         (\<exists>new. map_of st' ''messages'' = Some (Msgs (ms @ new))
            \<and> (map_of p ''messages'' = Some (Msgs new) \<or> map_of p ''messages'' = None \<and> new = [])))
   \<and> set (map fst p) \<subseteq> {''messages'', ''iterations''}
   \<and> (\<forall>k. k \<noteq> ''messages'' \<and> k \<noteq> ''iterations'' \<longrightarrow> map_of st' k = map_of st k)"
proof (induction p arbitrary: st)
  case Nil
  then show ?case by simp
next
  case (Cons kv p)
  obtain k v where kv: "kv = (k, v)" by (cases kv)
  have d: "distinct (map fst p)" and fresh: "k \<notin> fst ` set p"
    using Cons.prems(2) kv by auto
  have none: "map_of p k = None" using fresh by (rule map_of_None_if_fresh)
  consider (m) "k = ''messages''" | (i) "k = ''iterations''" | (o) "k \<noteq> ''messages''" "k \<noteq> ''iterations''"
    by blast
  then show ?case
  proof cases
    case i
    have run: "merge_patch ReActState (AList.update ''iterations'' v st) p = Inr st'"
      using Cons.prems(1) kv i by (simp add: ReActState_def)
    from Cons.IH [OF run d] none i kv show ?thesis
      by (auto simp: update_conv' split: option.splits)
  next
    case o
    then have "merge_patch ReActState st (kv # p) = Inl (Raised True ''InvalidUpdateError'' k)"
      using kv by (simp add: ReActState_def)
    then show ?thesis using Cons.prems(1) by simp
  next
    case m
    show ?thesis
    proof (cases "map_of st ''messages''")
      case None
      have run: "merge_patch ReActState (AList.update ''messages'' v st) p = Inr st'"
        using Cons.prems(1) kv m None by (simp add: ReActState_def)
      from Cons.IH [OF run d] none m kv None show ?thesis
        by (auto simp: update_conv' split: option.splits)
    next
      case (Some old)
      then obtain new where add: "operator_add old v = Inr new"
        and run: "merge_patch ReActState (AList.update ''messages'' new st) p = Inr st'"
        using Cons.prems(1) kv m by (auto simp: ReActState_def split: sum.splits)
      have ih: "map_of st' ''iterations'' =
                  (case map_of p ''iterations'' of None \<Rightarrow> map_of st ''iterations'' | Some v \<Rightarrow> Some v)"
          "set (map fst p) \<subseteq> {''messages'', ''iterations''}"
          "\<forall>k. k \<noteq> ''messages'' \<and> k \<noteq> ''iterations'' \<longrightarrow> map_of st' k = map_of st k"
        using Cons.IH [OF run d] by (auto simp: update_conv' split: option.splits)
      have msgs: "\<exists>new'. map_of st' ''messages'' = Some (Msgs (ms @ new'))
            \<and> (map_of (kv # p) ''messages'' = Some (Msgs new') \<or> map_of (kv # p) ''messages'' = None \<and> new' = [])"
        if ms: "map_of st ''messages'' = Some (Msgs ms)" for ms
      proof -
        from ms Some add have "operator_add (Msgs ms) v = Inr new" by simp
        from operator_add_Msgs [OF this] obtain b where b: "v = Msgs b" "new = Msgs (ms @ b)"
          by blast
        have "map_of (AList.update ''messages'' new st) ''messages'' = Some (Msgs (ms @ b))"
          using b by (simp add: update_conv')
        with Cons.IH [OF run d] none m
        have "map_of st' ''messages'' = Some (Msgs ((ms @ b) @ []))"
          by auto
        then show ?thesis using b kv m by auto
      qed
      show ?thesis using ih msgs kv m by auto
    qed
  qed
qed

subsection \<open>The calculator tools\<close>

lemma calculators_catch:
  "is_Exception e \<Longrightarrow> py_eval x = Inl e \<Longrightarrow>
     (\<exists>t. calculator_tool_V2 py_eval x = Inr t) \<and> (\<exists>t. calculator py_eval x = Inr t)"
  by (simp add: calculator_tool_V2_def calculator_def)

section \<open>Properties of the research team\<close>

lemma finished_fold:
  "fold (\<lambda>i done. if i < length outcomes then done(i \<mapsto> outcomes ! i) else done) order m j =
     (if j \<in> set order \<and> j < length outcomes then Some (outcomes ! j) else m j)"
  by (induction order arbitrary: m) auto

lemma finished_at:
  "finished order outcomes j =
     (if j \<in> set order \<and> j < length outcomes then Some (outcomes ! j) else None)"
  by (simp add: finished_def finished_fold)

lemma those_map_Some: "those (map Some xs) = Some xs"
  by (induction xs) auto

lemma gather_complete:
  assumes "set order = {0..<length outcomes}"
  shows "gather order outcomes = Some outcomes"
proof -
  have "map (finished order outcomes) [0..<length outcomes] = map (\<lambda>i. Some (outcomes ! i)) [0..<length outcomes]"
    using assms by (intro map_cong) (auto simp: finished_at)
  also have "\<dots> = map Some (map (\<lambda>i. outcomes ! i) [0..<length outcomes])"
    by simp
  also have "\<dots> = map Some outcomes"
    by (simp add: map_nth)
  finally show ?thesis by (simp add: gather_def those_map_Some)
qed

lemma processed_results_length: "length (processed_results now rs) = length rs"
  by (simp add: processed_results_def)

lemma processed_results_nth:
  "i < length rs \<Longrightarrow> processed_results now rs ! i = process_result now i (rs ! i)"
  by (simp add: processed_results_def nth_enumerate_eq)


lemma successful_results_dicts: "successful_results (map Inr ds) = Inr (filter success ds)"
  by (induction ds) auto

lemma successful_results_members:
  "successful_results results = Inr ok \<Longrightarrow> d \<in> set ok \<Longrightarrow> Inr d \<in> set results \<and> success d"
proof (induction results arbitrary: ok)
  case Nil
  then show ?case by simp
next
  case (Cons r rs)
  then show ?case
    by (cases r) (auto split: sum.splits if_splits)
qed

lemma summarizer_calls:
  assumes "snd (summarizer_ainvoke name fmt2f llm clock results) \<noteq> []"
  shows "\<exists>d. Inr d \<in> set results \<and> success d"
proof (cases "successful_results results")
  case (Inl e)
  then show ?thesis using assms by (simp add: summarizer_ainvoke_def)
next
  case (Inr ok)
  then have "ok \<noteq> []" using assms by (auto simp: summarizer_ainvoke_def)
  then obtain d where "d \<in> set ok" by (cases ok) auto
  then show ?thesis using successful_results_members [OF Inr] by blast
qed









section \<open>Properties of the travel planning graph\<close>

lemma route_next_after_collect:
  "collect_requirements llm st = Inr s \<Longrightarrow> route_next s = Inr ''attractions''"
  by (auto simp: collect_requirements_def route_next_def current_step_of_def step_map_get_def
      step_map_def update_conv' split: sum.splits)


section \<open>The claims\<close>

text \<open>
  C3, as the code has it. If none of the first five replies contains \<open>Final Answer\<close> and no
  tool call raises, a run started with the counter at 0 makes exactly five calls of the
  reasoning capability (five visits of \<open>agent\<close>, four of \<open>tools\<close>) and then stops through
  the router's \<open>iterations >= 5\<close> branch, provided the step budget allows nine steps. The
  state it returns has the counter at 5, its last message is the fifth reply, verbatim, with
  the role \<open>assistant\<close>, the earlier history is a prefix of the log, and the state has exactly
  the keys of the initial state: no field marks the stop as forced.
\<close>

theorem react_iteration_cap:
  assumes "map_of st ''messages'' = Some (Msgs ms)"
    and "map_of st ''iterations'' = Some (Num 0)"
    and "\<forall>k<5. \<not> str_in ''Final Answer'' (llm k)"
    and "\<forall>k<4. \<exists>v. tool_result py_eval (llm k) = Inr v"
    and "9 \<le> max_steps"
  shows "\<exists>sf ms'. invoke (workflow llm py_eval) max_steps st 0 =
             Inr (sf, 5, [''agent'', ''tools'', ''agent'', ''tools'', ''agent'', ''tools'',
                          ''agent'', ''tools'', ''agent''])
           \<and> map_of sf ''iterations'' = Some (Num 5)
           \<and> map_of sf ''messages'' =
               Some (Msgs (ms @ ms' @ [\<lparr>role = ''assistant'', content = llm 4\<rparr>]))
           \<and> map fst sf = map fst st"
proof -
  have h3: "\<forall>i\<le>4. \<not> str_in ''Final Answer'' (llm (0 + i))"
    using assms(3) by simp
  have h4: "\<forall>i<4. \<exists>v. tool_result py_eval (llm (0 + i)) = Inr v"
    using assms(4) by simp
  have i: "map_of st ''iterations'' = Some (Num (4 - int 4))"
    using assms(2) by simp
  have f: "2 * 4 + 1 \<le> max_steps"
    using assms(5) by simp
  have c: "concat (replicate 4 [''agent'', ''tools'']) @ [''agent''] =
     [''agent'', ''tools'', ''agent'', ''tools'', ''agent'', ''tools'', ''agent'', ''tools'', ''agent'']"
    by (simp add: numeral_eq_Suc)
  show ?thesis
    using react_loop [OF assms(1) i h3 h4 f]
    unfolding invoke_def c by (simp add: workflow_def)
qed

theorem react_iteration_cap_witness:
  "\<exists>sf ms'. invoke (workflow (scripted [''Thought: thinking'']) arith_eval) 9 (initial_state ''hello'') 0 =
             Inr (sf, 5, [''agent'', ''tools'', ''agent'', ''tools'', ''agent'', ''tools'',
                          ''agent'', ''tools'', ''agent''])
           \<and> map_of sf ''iterations'' = Some (Num 5)
           \<and> map_of sf ''messages'' =
               Some (Msgs ([\<lparr>role = ''user'', content = ''hello''\<rparr>] @ ms' @
                           [\<lparr>role = ''assistant'', content = ''Thought: thinking''\<rparr>]))
           \<and> map fst sf = [''messages'', ''iterations'']"
proof -
  have a: "map_of (initial_state ''hello'') ''messages'' = Some (Msgs [\<lparr>role = ''user'', content = ''hello''\<rparr>])"
    by (simp add: initial_state_def)
  have b: "map_of (initial_state ''hello'') ''iterations'' = Some (Num 0)"
    by (simp add: initial_state_def)
  have c: "\<forall>k<5. \<not> str_in ''Final Answer'' (scripted [''Thought: thinking''] k)"
    by simp
  have d: "\<forall>k<4. \<exists>v. tool_result arith_eval (scripted [''Thought: thinking''] k) = Inr v"
    by (simp add: tool_result_def)
  have e: "(9::nat) \<le> 9" by simp
  show ?thesis
    using react_iteration_cap [where llm = "scripted [''Thought: thinking'']" and py_eval = arith_eval,
        OF a b c d e]
    by (simp add: initial_state_def)
qed

text \<open>
  The claim C3 as stated asks for a forced-stop flag in the result. On five replies without
  \<open>Final Answer\<close> the run returns the state below: the message log and the counter, and
  nothing else.
\<close>

theorem forced_stop_returns_plain_state:
  "invoke (workflow (scripted [''Thought: thinking'']) arith_eval) 25 (initial_state ''hello'') 0 =
     Inr ([(''messages'',
            Msgs [\<lparr>role = ''user'', content = ''hello''\<rparr>,
                  \<lparr>role = ''assistant'', content = ''Thought: thinking''\<rparr>,
                  \<lparr>role = ''tool'', content = ''Observation: '' @ unrecognized_tool\<rparr>,
                  \<lparr>role = ''assistant'', content = ''Thought: thinking''\<rparr>,
                  \<lparr>role = ''tool'', content = ''Observation: '' @ unrecognized_tool\<rparr>,
                  \<lparr>role = ''assistant'', content = ''Thought: thinking''\<rparr>,
                  \<lparr>role = ''tool'', content = ''Observation: '' @ unrecognized_tool\<rparr>,
                  \<lparr>role = ''assistant'', content = ''Thought: thinking''\<rparr>,
                  \<lparr>role = ''tool'', content = ''Observation: '' @ unrecognized_tool\<rparr>,
                  \<lparr>role = ''assistant'', content = ''Thought: thinking''\<rparr>]),
           (''iterations'', Num 5)],
          5,
          [''agent'', ''tools'', ''agent'', ''tools'', ''agent'', ''tools'', ''agent'', ''tools'',
           ''agent''])"
  by code_simp

text \<open>
  C9. The first reply requests the calculator (it has \<open>Action: Calculator\<close>, neither
  \<open>Action: Search\<close> nor \<open>Final Answer\<close>, and the text after its last \<open>Action Input:\<close> strips
  to \<open>2**2+10\<close>, which \<open>eval\<close> evaluates to 14), and the second reply has \<open>Final Answer\<close>.
  Then the run makes exactly two calls of the reasoning capability, visits \<open>agent\<close>,
  \<open>tools\<close>, \<open>agent\<close>, and the one tool step appends the observation of the value 14.
\<close>

theorem calculator_scenario:
  assumes "map_of st ''messages'' = Some (Msgs ms)"
    and "map_of st ''iterations'' = Some (Num 0)"
    and "\<not> str_in ''Final Answer'' (llm 0)"
    and "\<not> str_in ''Action: Search'' (llm 0)"
    and "str_in ''Action: Calculator'' (llm 0)"
    and "action_input (llm 0) = Inr ''2**2+10''"
    and "py_eval ''2**2+10'' = Inr (PyInt 14)"
    and "str_in ''Final Answer'' (llm 1)"
    and "3 \<le> max_steps"
  shows "\<exists>sf. invoke (workflow llm py_eval) max_steps st 0 =
             Inr (sf, 2, [''agent'', ''tools'', ''agent''])
           \<and> map_of sf ''messages'' =
               Some (Msgs (ms @ [\<lparr>role = ''assistant'', content = llm 0\<rparr>,
                                 \<lparr>role = ''tool'', content = ''Observation: 14''\<rparr>,
                                 \<lparr>role = ''assistant'', content = llm 1\<rparr>]))
           \<and> map_of sf ''iterations'' = Some (Num 2)"
proof -
  obtain f where f: "max_steps = Suc (Suc (Suc f))"
    using assms(9) by (metis Suc_le_D numeral_3_eq_3 Suc_le_mono)
  let ?a0 = "\<lparr>role = ''assistant'', content = llm 0\<rparr>"
  let ?t = "\<lparr>role = ''tool'', content = ''Observation: '' @ py_str (PyInt 14)\<rparr>"
  let ?a1 = "\<lparr>role = ''assistant'', content = llm 1\<rparr>"
  let ?s1 = "AList.update ''iterations'' (Num (0 + 1)) (AList.update ''messages'' (Msgs (ms @ [?a0])) st)"
  let ?s2 = "AList.update ''messages'' (Msgs ((ms @ [?a0]) @ [?t])) ?s1"
  let ?s3 = "AList.update ''iterations'' (Num (1 + 1)) (AList.update ''messages'' (Msgs (((ms @ [?a0]) @ [?t]) @ [?a1])) ?s2)"
  have step1: "engine_step (workflow llm py_eval) ''agent'' st 0 = Inr (Node ''tools'', ?s1, Suc 0)"
    using agent_step [OF assms(1,2), of llm py_eval 0] assms(3) by simp
  have m1: "map_of ?s1 ''messages'' = Some (Msgs (ms @ [?a0]))"
    by (simp add: update_conv')
  have tr: "tool_result py_eval (content (last (ms @ [?a0]))) = Inr (PyInt 14)"
    using assms(4-7) by (simp add: tool_result_def calculator_tool_def)
  have step2: "engine_step (workflow llm py_eval) ''tools'' ?s1 (Suc 0) = Inr (Node ''agent'', ?s2, Suc 0)"
    using tools_step [OF m1 _ tr, of llm "Suc 0"] by simp
  have m2: "map_of ?s2 ''messages'' = Some (Msgs ((ms @ [?a0]) @ [?t]))"
    by (simp add: update_conv')
  have i2: "map_of ?s2 ''iterations'' = Some (Num 1)"
    by (simp add: update_conv')
  have step3: "engine_step (workflow llm py_eval) ''agent'' ?s2 (Suc 0) = Inr (END, ?s3, Suc (Suc 0))"
    using agent_step [OF m2 i2, of llm py_eval "Suc 0"] assms(8) by simp
  note r3 = engine_run_END [OF step3, of f]
  note r2 = engine_run_Node [OF step2 r3]
  note r1 = engine_run_Node [OF step1 r2]
  have "invoke (workflow llm py_eval) max_steps st 0 = Inr (?s3, 2, [''agent'', ''tools'', ''agent''])"
    unfolding invoke_def f using r1 by (simp add: workflow_def numeral_2_eq_2)
  moreover have "map_of ?s3 ''messages'' = Some (Msgs (ms @ [?a0, \<lparr>role = ''tool'', content = ''Observation: 14''\<rparr>, ?a1]))"
    by (simp add: update_conv' str_int_def)
  moreover have "map_of ?s3 ''iterations'' = Some (Num 2)"
    by (simp add: update_conv')
  ultimately show ?thesis by blast
qed

theorem calculator_scenario_witness:
  "\<exists>sf. invoke (workflow (scripted [''Thought: compute it'' @ [CHR 0x0A] @ ''Action: Calculator'' @
                                   [CHR 0x0A] @ ''Action Input: 2**2+10'', ''Final Answer: 14''])
                   arith_eval) 3 (initial_state ''what is 2**2+10'') 0 =
             Inr (sf, 2, [''agent'', ''tools'', ''agent''])
           \<and> map_of sf ''messages'' =
               Some (Msgs [\<lparr>role = ''user'', content = ''what is 2**2+10''\<rparr>,
                           \<lparr>role = ''assistant'',
                              content = ''Thought: compute it'' @ [CHR 0x0A] @ ''Action: Calculator'' @
                                        [CHR 0x0A] @ ''Action Input: 2**2+10''\<rparr>,
                           \<lparr>role = ''tool'', content = ''Observation: 14''\<rparr>,
                           \<lparr>role = ''assistant'', content = ''Final Answer: 14''\<rparr>])
           \<and> map_of sf ''iterations'' = Some (Num 2)"
proof -
  let ?llm = "scripted [''Thought: compute it'' @ [CHR 0x0A] @ ''Action: Calculator'' @
                        [CHR 0x0A] @ ''Action Input: 2**2+10'', ''Final Answer: 14'']"
  have a: "map_of (initial_state ''what is 2**2+10'') ''messages'' =
             Some (Msgs [\<lparr>role = ''user'', content = ''what is 2**2+10''\<rparr>])"
    by (simp add: initial_state_def)
  have b: "map_of (initial_state ''what is 2**2+10'') ''iterations'' = Some (Num 0)"
    by (simp add: initial_state_def)
  have c: "\<not> str_in ''Final Answer'' (?llm 0)" by code_simp
  have d: "\<not> str_in ''Action: Search'' (?llm 0)" by code_simp
  have e: "str_in ''Action: Calculator'' (?llm 0)" by code_simp
  have f: "action_input (?llm 0) = Inr ''2**2+10''" by code_simp
  have g: "arith_eval ''2**2+10'' = Inr (PyInt 14)" by code_simp
  have h: "str_in ''Final Answer'' (?llm 1)" by code_simp
  have i: "(3::nat) \<le> 3" by simp
  show ?thesis
    using calculator_scenario [where llm = ?llm and py_eval = arith_eval, OF a b c d e f g h i]
    by simp
qed

text \<open>
  C10. For every state whose last message contains \<open>Final Answer\<close> the router returns
  \<open>end\<close>, which the edge map of \<open>agent\<close> resolves to the terminal sentinel, whatever else
  the message contains and whatever the counter is (even when it is missing); a run whose
  \<open>agent\<close> step produced that state returns it at once, having visited \<open>agent\<close> only.
\<close>

theorem final_answer_takes_precedence:
  assumes "map_of st ''messages'' = Some (Msgs ms)"
    and "ms \<noteq> []"
    and "str_in ''Final Answer'' (content (last ms))"
  shows "should_continue st = Inr ''end''
       \<and> resolve ''agent'' (map_of (g_edges (workflow llm py_eval)) ''agent'') st = Inr END
       \<and> (\<forall>s k t k' max_steps.
             engine_step (workflow llm py_eval) ''agent'' s k = Inr (t, st, k') \<longrightarrow>
               engine_run (workflow llm py_eval) (Suc max_steps) ''agent'' s k = Inr (st, k', [''agent'']))"
proof -
  have sc: "should_continue st = Inr ''end''"
    using assms by (simp add: should_continue_def last_content_def state_get_def)
  have rs: "resolve ''agent'' (map_of (g_edges (workflow llm py_eval)) ''agent'') st = Inr END"
    using sc by (simp add: resolve_def workflow_def)
  have "engine_run (workflow llm py_eval) (Suc max_steps) ''agent'' s k = Inr (st, k', [''agent''])"
    if h: "engine_step (workflow llm py_eval) ''agent'' s k = Inr (t, st, k')" for s k t k' max_steps
  proof -
    have "t = END" using engine_step_target [OF h] rs by simp
    then show ?thesis using h by simp
  qed
  then show ?thesis using sc rs by blast
qed

theorem final_answer_takes_precedence_witness:
  "should_continue [(''messages'', Msgs [\<lparr>role = ''assistant'',
        content = ''Action: Calculator'' @ [CHR 0x0A] @ ''Action Input: 1+1'' @ [CHR 0x0A] @ ''Final Answer: 2''\<rparr>]),
      (''iterations'', Num 1)] = Inr ''end''
   \<and> engine_run (workflow (scripted [''Action: Calculator'' @ [CHR 0x0A] @ ''Action Input: 1+1'' @
                                      [CHR 0x0A] @ ''Final Answer: 2'']) arith_eval)
        (Suc 0) ''agent'' [(''messages'', Msgs []), (''iterations'', Num 0)] 0 =
       Inr ([(''messages'', Msgs [\<lparr>role = ''assistant'',
               content = ''Action: Calculator'' @ [CHR 0x0A] @ ''Action Input: 1+1'' @ [CHR 0x0A] @ ''Final Answer: 2''\<rparr>]),
             (''iterations'', Num 1)], Suc 0, [''agent''])"
proof -
  let ?r = "''Action: Calculator'' @ [CHR 0x0A] @ ''Action Input: 1+1'' @ [CHR 0x0A] @ ''Final Answer: 2''"
  let ?st = "[(''messages'', Msgs [\<lparr>role = ''assistant'', content = ?r\<rparr>]), (''iterations'', Num 1)]"
  let ?g = "workflow (scripted [?r]) arith_eval"
  have a: "map_of ?st ''messages'' = Some (Msgs [\<lparr>role = ''assistant'', content = ?r\<rparr>])"
    by simp
  have b: "[\<lparr>role = ''assistant'', content = ?r\<rparr>] \<noteq> []"
    by simp
  have c: "str_in ''Final Answer'' (content (last [\<lparr>role = ''assistant'', content = ?r\<rparr>]))"
    by code_simp
  have d: "engine_step ?g ''agent'' [(''messages'', Msgs []), (''iterations'', Num 0)] 0 = Inr (END, ?st, Suc 0)"
    by code_simp
  from final_answer_takes_precedence [where llm = "scripted [?r]" and py_eval = arith_eval, OF a b c] d
  show ?thesis by blast
qed

text \<open>
  C7, as the code has it. When the last message contains \<open>Action: \<close> followed by the name of
  a registered tool for no tool of the registry (the test \<open>tool_node\<close> makes), \<open>tool_node\<close>
  returns the patch with the observation of the unrecognised tool, for any behaviour of
  \<open>eval\<close>, and the engine step at \<open>tools\<close> appends it to the log and goes back to \<open>agent\<close>.
\<close>

theorem unknown_tool_is_observed:
  assumes "map_of st ''messages'' = Some (Msgs ms)"
    and "ms \<noteq> []"
    and "list_all (\<lambda>name. \<not> str_in (''Action: '' @ name) (content (last ms))) tool_names"
  shows "tool_node py_eval st =
           Inr [(''messages'', Msgs [\<lparr>role = ''tool'', content = ''Observation: '' @ unrecognized_tool\<rparr>])]
       \<and> engine_step (workflow llm py_eval) ''tools'' st k =
           Inr (Node ''agent'',
                AList.update ''messages''
                  (Msgs (ms @ [\<lparr>role = ''tool'', content = ''Observation: '' @ unrecognized_tool\<rparr>])) st,
                k)"
proof -
  have tr: "tool_result py_eval (content (last ms)) = Inr (PyObj unrecognized_tool)"
    using assms(3) by (simp add: tool_result_def tool_names_def)
  have "tool_node py_eval st =
           Inr [(''messages'', Msgs [\<lparr>role = ''tool'', content = ''Observation: '' @ unrecognized_tool\<rparr>])]"
    using assms(1,2) tr by (simp add: tool_node_def last_content_def state_get_def)
  moreover note tools_step [OF assms(1,2) tr, of llm k]
  ultimately show ?thesis by simp
qed

theorem unknown_tool_is_observed_witness:
  "tool_node arith_eval
     [(''messages'', Msgs [\<lparr>role = ''assistant'', content = ''Action: Weather'' @ [CHR 0x0A] @ ''Action Input: Paris''\<rparr>]),
      (''iterations'', Num 1)] =
     Inr [(''messages'', Msgs [\<lparr>role = ''tool'', content = ''Observation: '' @ unrecognized_tool\<rparr>])]
   \<and> engine_step (workflow (scripted []) arith_eval) ''tools''
        [(''messages'', Msgs [\<lparr>role = ''assistant'', content = ''Action: Weather'' @ [CHR 0x0A] @ ''Action Input: Paris''\<rparr>]),
         (''iterations'', Num 1)] 1 =
       Inr (Node ''agent'',
            [(''messages'', Msgs [\<lparr>role = ''assistant'', content = ''Action: Weather'' @ [CHR 0x0A] @ ''Action Input: Paris''\<rparr>,
                                  \<lparr>role = ''tool'', content = ''Observation: '' @ unrecognized_tool\<rparr>]),
             (''iterations'', Num 1)], 1)"
proof -
  let ?m = "\<lparr>role = ''assistant'', content = ''Action: Weather'' @ [CHR 0x0A] @ ''Action Input: Paris''\<rparr>"
  let ?st = "[(''messages'', Msgs [?m]), (''iterations'', Num 1)]"
  have a: "map_of ?st ''messages'' = Some (Msgs [?m])" by simp
  have b: "[?m] \<noteq> []" by simp
  have c: "list_all (\<lambda>name. \<not> str_in (''Action: '' @ name) (content (last [?m]))) tool_names"
    by code_simp
  from unknown_tool_is_observed [where llm = "scripted []" and py_eval = arith_eval and k = 1, OF a b c]
  show ?thesis by simp
qed


text \<open>
  The claim C7 as stated covers every requested tool that is not in the registry. The tool
  is found by a substring test, so a request for \<open>SearchEngine\<close>, which is not registered,
  runs \<open>search_tool\<close> and records its result, not the observation of an unrecognised tool.
\<close>

theorem unregistered_tool_runs_search:
  "tool_node arith_eval
     [(''messages'', Msgs [\<lparr>role = ''assistant'',
                            content = ''Action: SearchEngine'' @ [CHR 0x0A] @ ''Action Input: Paris''\<rparr>]),
      (''iterations'', Num 1)] =
     Inr [(''messages'', Msgs [\<lparr>role = ''tool'', content = ''Observation: '' @ search_tool ''Paris''\<rparr>])]
   \<and> ''SearchEngine'' \<notin> set tool_names
   \<and> search_tool ''Paris'' \<noteq> unrecognized_tool"
  by code_simp

text \<open>
  C8. Merging a patch whose keys are distinct into a state that holds a message log either
  rejects the patch, and then no state results, or applies all of it: the log of the new
  state is the old log followed by the patch's messages (the old entries unchanged and in
  order, and nothing appended when the patch has no \<open>messages\<close> entry), the counter is the
  patch's value when it has one and the old one otherwise, and the patch has no key
  outside the schema.
\<close>

theorem state_patch_merge:
  assumes "distinct (map fst patch)"
    and "map_of st ''messages'' = Some (Msgs ms)"
  shows "(\<exists>e. merge_patch ReActState st patch = Inl e)
       \<or> (\<exists>st' new. merge_patch ReActState st patch = Inr st'
             \<and> map_of st' ''messages'' = Some (Msgs (ms @ new))
             \<and> (map_of patch ''messages'' = Some (Msgs new)
                  \<or> map_of patch ''messages'' = None \<and> new = [])
             \<and> map_of st' ''iterations'' =
                 (case map_of patch ''iterations'' of
                    None \<Rightarrow> map_of st ''iterations''
                  | Some v \<Rightarrow> Some v)
             \<and> set (map fst patch) \<subseteq> {''messages'', ''iterations''})"
proof (cases "merge_patch ReActState st patch")
  case (Inl e)
  then show ?thesis by blast
next
  case (Inr st')
  from merge_patch_sound [OF Inr assms(1)] assms(2) obtain new where
    "map_of st' ''messages'' = Some (Msgs (ms @ new))"
    "map_of patch ''messages'' = Some (Msgs new) \<or> map_of patch ''messages'' = None \<and> new = []"
    by blast
  moreover from merge_patch_sound [OF Inr assms(1)] have
    "map_of st' ''iterations'' =
       (case map_of patch ''iterations'' of None \<Rightarrow> map_of st ''iterations'' | Some v \<Rightarrow> Some v)"
    "set (map fst patch) \<subseteq> {''messages'', ''iterations''}"
    by blast+
  ultimately show ?thesis using Inr by blast
qed

theorem state_patch_merge_witness:
  "merge_patch ReActState
     [(''messages'', Msgs [\<lparr>role = ''user'', content = ''hello''\<rparr>]), (''iterations'', Num 0)]
     [(''messages'', Msgs [\<lparr>role = ''assistant'', content = ''Thought: hi''\<rparr>]), (''iterations'', Num 1)] =
   Inr [(''messages'', Msgs [\<lparr>role = ''user'', content = ''hello''\<rparr>,
                             \<lparr>role = ''assistant'', content = ''Thought: hi''\<rparr>]),
        (''iterations'', Num 1)]
   \<and> merge_patch ReActState
     [(''messages'', Msgs [\<lparr>role = ''user'', content = ''hello''\<rparr>]), (''iterations'', Num 0)]
     [(''iterations'', Num 1), (''messages'', Num 7)] =
   Inl (Raised True ''TypeError'' ''unsupported operand types for +'')"
proof -
  let ?st = "[(''messages'', Msgs [\<lparr>role = ''user'', content = ''hello''\<rparr>]), (''iterations'', Num 0)]"
  let ?p = "[(''messages'', Msgs [\<lparr>role = ''assistant'', content = ''Thought: hi''\<rparr>]), (''iterations'', Num 1)]"
  let ?q = "[(''iterations'', Num 1), (''messages'', Num 7)]"
  have a: "distinct (map fst ?p)" by simp
  have a': "distinct (map fst ?q)" by simp
  have b: "map_of ?st ''messages'' = Some (Msgs [\<lparr>role = ''user'', content = ''hello''\<rparr>])" by simp
  from state_patch_merge [OF a b] state_patch_merge [OF a' b]
  show ?thesis by (simp add: ReActState_def)
qed

text \<open>
  C4, on the malformed expression \<open>2+\<close>. \<open>calculator_tool\<close> of ReactAgent.py does whatever
  \<open>eval\<close> does, so it raises the \<open>SyntaxError\<close> of \<open>eval\<close>, and \<open>tool_node\<close> raises with it; \<open>calculator_tool\<close> of
  ReactAgentV2.py and \<open>calculator\<close> of googleSearch\_simple.py return a text that describes
  the failure.
\<close>

theorem calculator_tool_raises:
  "calculator_tool py_eval expression = py_eval expression
   \<and> calculator_tool arith_eval ''2+'' = Inl (Raised True ''SyntaxError'' ''invalid syntax'')
   \<and> tool_node arith_eval
        [(''messages'', Msgs [\<lparr>role = ''assistant'',
                               content = ''Action: Calculator'' @ [CHR 0x0A] @ ''Action Input: 2+''\<rparr>]),
         (''iterations'', Num 1)] =
       Inl (Raised True ''SyntaxError'' ''invalid syntax'')
   \<and> calculator_tool_V2 arith_eval ''2+'' =
       Inr ([CHR 0xE2, CHR 0x9D, CHR 0x8C] @ '' '' @
            [CHR 0xE8, CHR 0xAE, CHR 0xA1, CHR 0xE7, CHR 0xAE, CHR 0x97, CHR 0xE9, CHR 0x94,
             CHR 0x99, CHR 0xE8, CHR 0xAF, CHR 0xAF] @ '': invalid syntax'')
   \<and> calculator arith_eval ''2+'' =
       Inr ([CHR 0xE8, CHR 0xAE, CHR 0xA1, CHR 0xE7, CHR 0xAE, CHR 0x97, CHR 0xE9, CHR 0x94,
             CHR 0x99, CHR 0xE8, CHR 0xAF, CHR 0xAF] @ '': invalid syntax'')"
proof -
  have "calculator_tool py_eval expression = py_eval expression"
    by (simp add: calculator_tool_def)
  moreover have "calculator_tool arith_eval ''2+'' = Inl (Raised True ''SyntaxError'' ''invalid syntax'')"
    by code_simp
  moreover have "tool_node arith_eval
        [(''messages'', Msgs [\<lparr>role = ''assistant'',
                               content = ''Action: Calculator'' @ [CHR 0x0A] @ ''Action Input: 2+''\<rparr>]),
         (''iterations'', Num 1)] =
       Inl (Raised True ''SyntaxError'' ''invalid syntax'')"
    by code_simp
  moreover have "calculator_tool_V2 arith_eval ''2+'' =
       Inr ([CHR 0xE2, CHR 0x9D, CHR 0x8C] @ '' '' @
            [CHR 0xE8, CHR 0xAE, CHR 0xA1, CHR 0xE7, CHR 0xAE, CHR 0x97, CHR 0xE9, CHR 0x94,
             CHR 0x99, CHR 0xE8, CHR 0xAF, CHR 0xAF] @ '': invalid syntax'')"
    by code_simp
  moreover have "calculator arith_eval ''2+'' =
       Inr ([CHR 0xE8, CHR 0xAE, CHR 0xA1, CHR 0xE7, CHR 0xAE, CHR 0x97, CHR 0xE9, CHR 0x94,
             CHR 0x99, CHR 0xE8, CHR 0xAF, CHR 0xAF] @ '': invalid syntax'')"
    by code_simp
  ultimately show ?thesis by blast
qed

text \<open>
  C2. For every sequence of task outcomes and every order in which all the tasks complete,
  the fan-out returns a sequence of the same length whose entry at position \<open>i\<close> is the
  processed outcome of the task at position \<open>i\<close>; where that task returned a task result,
  the entry is that result.
\<close>

theorem fan_out_keeps_order:
  assumes "set order = {0..<length outcomes}"
  shows "\<exists>rs. run_tasks order now outcomes = Some rs
           \<and> length rs = length outcomes
           \<and> (\<forall>i<length outcomes. rs ! i = process_result now i (outcomes ! i))
           \<and> (\<forall>i<length outcomes. \<forall>d. outcomes ! i = Inr d \<longrightarrow> rs ! i = Inr d)"
proof -
  have "run_tasks order now outcomes = Some (processed_results now outcomes)"
    by (simp add: run_tasks_def gather_complete [OF assms])
  moreover have "\<forall>i<length outcomes. \<forall>d. outcomes ! i = Inr d \<longrightarrow>
       processed_results now outcomes ! i = Inr d"
    by (simp add: processed_results_nth process_result_def)
  ultimately show ?thesis
    by (simp add: processed_results_length processed_results_nth)
qed

theorem fan_out_keeps_order_witness:
  "\<exists>rs. run_tasks [2, 0, 1] real
           [ainvoke ''A'' ''T1'' (Inr [(''output'', ''found'')]) real,
            ainvoke ''B'' ''T2'' (Inl (Raised True ''TimeoutError'' ''timed out'')) real,
            ainvoke ''C'' ''T3'' (Inr [(''output'', ''analysed'')]) real] = Some rs
         \<and> length rs = 3
         \<and> rs ! 0 = Inr \<lparr>agent = ''A'', task = ''T1'', result = ''found'',
                          duration = 1, timestamp = 1, success = True\<rparr>
         \<and> rs ! 1 = Inr \<lparr>agent = ''B'', task = ''T2'', result = task_failed @ ''timed out'',
                          duration = 1, timestamp = 1, success = False\<rparr>
         \<and> rs ! 2 = Inr \<lparr>agent = ''C'', task = ''T3'', result = ''analysed'',
                          duration = 1, timestamp = 1, success = True\<rparr>"
proof -
  let ?outs = "[ainvoke ''A'' ''T1'' (Inr [(''output'', ''found'')]) real,
            ainvoke ''B'' ''T2'' (Inl (Raised True ''TimeoutError'' ''timed out'')) real,
            ainvoke ''C'' ''T3'' (Inr [(''output'', ''analysed'')]) real]"
  have a: "set [2, 0, 1] = {0..<length ?outs}"
    by auto
  from fan_out_keeps_order [OF a, of real] obtain rs where
    rs: "run_tasks [2, 0, 1] real ?outs = Some rs" "length rs = length ?outs"
      "\<forall>i<length ?outs. rs ! i = process_result real i (?outs ! i)"
    by blast
  have "rs ! 0 = process_result real 0 (?outs ! 0)" "rs ! 1 = process_result real 1 (?outs ! 1)"
    "rs ! 2 = process_result real 2 (?outs ! 2)"
    using rs(3) by simp_all
  then show ?thesis using rs(1,2)
    by (simp add: process_result_def ainvoke_def executor_output_def)
qed




text \<open>
  C5. If every task result given to \<open>SummarizerAgent.ainvoke\<close> has \<open>success = False\<close>, it
  returns the failure record stating that all prior tasks failed and sends no prompt to the
  reasoning capability; whenever a prompt is sent, some result of the input succeeded.
\<close>

theorem all_failed_skips_synthesis:
  assumes "list_all (\<lambda>d. \<not> success d) ds"
  shows "summarizer_ainvoke name fmt2f llm clock (map Inr ds) =
           (Inr \<lparr>agent = name, task = integrate_task, result = all_failed_text,
                 duration = 0, timestamp = clock 1, success = False\<rparr>, [])
       \<and> (\<forall>results. snd (summarizer_ainvoke name fmt2f llm clock results) \<noteq> [] \<longrightarrow>
             (\<exists>d. Inr d \<in> set results \<and> success d))"
proof -
  have "filter success ds = []"
    using assms by (induction ds) auto
  then have "summarizer_ainvoke name fmt2f llm clock (map Inr ds) =
           (Inr \<lparr>agent = name, task = integrate_task, result = all_failed_text,
                 duration = 0, timestamp = clock 1, success = False\<rparr>, [])"
    by (simp add: summarizer_ainvoke_def successful_results_dicts)
  then show ?thesis using summarizer_calls by blast
qed

theorem all_failed_skips_synthesis_witness:
  "summarizer_ainvoke ''S'' (\<lambda>x. ''0.00'') (\<lambda>p. Inr ''report'') real
     (map Inr [\<lparr>agent = ''A'', task = ''T1'', result = task_failed @ ''timed out'',
                duration = 1, timestamp = 1, success = False\<rparr>,
               \<lparr>agent = ''Agent-2'', task = search_task, result = exception_text @ ''down'',
                duration = 0, timestamp = 2, success = False\<rparr>]) =
     (Inr \<lparr>agent = ''S'', task = integrate_task, result = all_failed_text,
           duration = 0, timestamp = 1, success = False\<rparr>, [])
   \<and> snd (summarizer_ainvoke ''S'' (\<lambda>x. ''0.00'') (\<lambda>p. Inr ''report'') real
        [Inr \<lparr>agent = ''A'', task = ''T1'', result = ''found'', duration = 1, timestamp = 1, success = True\<rparr>,
         Inr \<lparr>agent = ''B'', task = ''T2'', result = task_failed @ ''timed out'',
                duration = 1, timestamp = 1, success = False\<rparr>]) =
     [report_prompt (result_block (\<lambda>x. ''0.00'')
        \<lparr>agent = ''A'', task = ''T1'', result = ''found'', duration = 1, timestamp = 1, success = True\<rparr>)]"
proof -
  let ?ds = "[\<lparr>agent = ''A'', task = ''T1'', result = task_failed @ ''timed out'',
                duration = 1, timestamp = 1, success = False\<rparr>,
               \<lparr>agent = ''Agent-2'', task = search_task, result = exception_text @ ''down'',
                duration = 0, timestamp = 2, success = False\<rparr>]"
  have a: "list_all (\<lambda>d. \<not> success d) ?ds" by simp
  have b: "snd (summarizer_ainvoke ''S'' (\<lambda>x. ''0.00'') (\<lambda>p. Inr ''report'') real
        [Inr \<lparr>agent = ''A'', task = ''T1'', result = ''found'', duration = 1, timestamp = 1, success = True\<rparr>,
         Inr \<lparr>agent = ''B'', task = ''T2'', result = task_failed @ ''timed out'',
                duration = 1, timestamp = 1, success = False\<rparr>]) =
     [report_prompt (result_block (\<lambda>x. ''0.00'')
        \<lparr>agent = ''A'', task = ''T1'', result = ''found'', duration = 1, timestamp = 1, success = True\<rparr>)]"
    by (simp add: summarizer_ainvoke_def combined_info_def)
  from all_failed_skips_synthesis [OF a, of "''S''" "\<lambda>x. ''0.00''" "\<lambda>p. Inr ''report''" real] b
  show ?thesis by simp
qed

text \<open>
  C1, on the run \<open>build_and_run_workflow\<close> starts. The entry node \<open>collect\<close> sets
  \<open>current_step\<close> to \<open>weather_check\<close>, so the router, consulted on the state the node leaves,
  returns the label \<open>attractions\<close>; the edge map of \<open>collect\<close> has the labels \<open>weather\<close> and
  \<open>end\<close> only, and resolving the label there is the error \<open>UnroutableOutcome\<close>.
\<close>

theorem collect_routes_to_unmapped_label:
  "\<exists>s. collect_requirements (\<lambda>prompt. Inr response)
          (initial_travel_state dest days money prefs kind) = Inr s
       \<and> map_of s ''current_step'' = Some (Text ''weather_check'')
       \<and> route_next s = Inr ''attractions''
       \<and> map_of conditional_edges ''collect'' = Some [(''weather'', Node ''weather''), (''end'', END)]
       \<and> resolve ''collect'' (travel_routing ''collect'') s =
           Inl (UnroutableOutcome ''collect'' ''attractions'')"
proof -
  let ?st = "initial_travel_state dest days money prefs kind"
  obtain prompt where p: "requirements_prompt ?st = Inr prompt"
    by (simp add: requirements_prompt_def initial_travel_state_def text_field_def list_field_def)
  let ?s = "AList.update ''messages''
              (Messages [\<lparr>role = ''human'', content = prompt\<rparr>, \<lparr>role = ''ai'', content = response\<rparr>])
              (AList.update ''current_step'' (Text ''weather_check'') ?st)"
  have c: "collect_requirements (\<lambda>prompt. Inr response) ?st = Inr ?s"
    by (simp add: collect_requirements_def p)
  have cs: "map_of ?s ''current_step'' = Some (Text ''weather_check'')"
    by (simp add: update_conv')
  have r: "route_next ?s = Inr ''attractions''"
    using c by (rule route_next_after_collect)
  have e: "map_of conditional_edges ''collect'' = Some [(''weather'', Node ''weather''), (''end'', END)]"
    by (simp add: conditional_edges_def)
  have "resolve ''collect'' (travel_routing ''collect'') ?s =
           Inl (UnroutableOutcome ''collect'' ''attractions'')"
    by (simp add: resolve_def travel_routing_def e r)
  then show ?thesis using c cs r e by blast
qed

end
